theory Spec2Isabelle
  imports Main "HOL-Library.Word"
begin

section \<open>Failures\<close>

text \<open>
  Every way the modelled code leaves a function other than by returning is a value of
  \<open>error\<close>; a fallible function returns \<open>error + 'a\<close> with \<open>Inl\<close> the failure.
  \<^item> \<open>Cldnn_error id msg\<close>: a \<^verbatim>\<open>CLDNN_ERROR_*\<close> check failed for node \<open>id\<close>;
  \<^item> \<open>Axis_exceeds_dimensions\<close>: \<^verbatim>\<open>IE_THROW() << "Concatenation axis exceeds number of dimensions"\<close>;
  \<^item> \<open>Unsupported_axis a\<close>: \<^verbatim>\<open>IE_THROW() << "Unsupported concatenation axis: " << axis\<close>;
  \<^item> \<open>Invalid_argument\<close>: \<^verbatim>\<open>std::invalid_argument\<close> thrown by \<^verbatim>\<open>internal_to_external\<close>;
  \<^item> \<open>Assert_failed\<close>: an \<^verbatim>\<open>IE_ASSERT\<close> did not hold;
  \<^item> \<open>Out_of_bounds\<close>: an unchecked read past the end of a string or vector
    (undefined behaviour in the source).
\<close>

type_synonym primitive_id = string

datatype error =
    Cldnn_error primitive_id string
  | Axis_exceeds_dimensions
  | Unsupported_axis "64 word"
  | Invalid_argument
  | Assert_failed
  | Out_of_bounds

section \<open>Format descriptors\<close>

text \<open>
  \<^verbatim>\<open>format::type\<close> is an \<^verbatim>\<open>enum : int32_t\<close> of 153 enumerators followed by
  \<^verbatim>\<open>format_num\<close>, with \<^verbatim>\<open>any = -1\<close>. A format is modelled by its enumerator value;
  \<open>format_type_names\<close> lists the enumerators in declaration order, so the value of an
  enumerator is its position in that list.
\<close>

type_synonym format_type = int

definition format_type_names :: "string list" where
  "format_type_names = [
    ''bfyx'', ''bfzyx'', ''bfwzyx'', ''yxfb'', ''byxf'', ''fyxb'', ''b_fs_yx_fsv2'',
    ''b_fs_zyx_fsv2'', ''b_fs_yx_fsv4'', ''b_fs_zyx_fsv4'', ''b_fs_yx_fsv16'', ''b_fs_yx_fsv32'',
    ''b_fs_zyx_fsv16'', ''b_fs_zyx_fsv32'', ''bs_fs_yx_bsv16_fsv32'', ''bs_fs_zyx_bsv16_fsv32'',
    ''bs_fs_zyx_bsv16_fsv16'', ''bs_fs_yx_bsv16_fsv16'', ''bs_fs_yx_bsv4_fsv4'',
    ''bs_fs_yx_bsv8_fsv4'', ''bs_fs_zyx_bsv8_fsv4'', ''bs_fs_yx_bsv8_fsv2'',
    ''bs_fs_zyx_bsv8_fsv2'', ''bs_fs_yx_bsv4_fsv2'', ''bs_fs_zyx_bsv4_fsv4'',
    ''bs_fs_zyx_bsv4_fsv2'', ''bs_fs_yx_bsv32_fsv32'', ''bs_fs_yx_bsv32_fsv16'',
    ''bs_fs_zyx_bsv32_fsv32'', ''bs_fs_zyx_bsv32_fsv16'', ''fs_b_yx_fsv32'', ''bs_xs_xsv8_bsv8'',
    ''bs_xs_xsv8_bsv16'', ''bs_x_bsv16'', ''b_fs_yx_32fp'', ''winograd_2x3_s1_data'', ''nv12'',
    ''image_2d_rgba'', ''oiyx'', ''ioyx'', ''yxio'', ''oizyx'', ''iozyx'', ''iyxo'', ''oyxi'',
    ''os_iyx_osv16'', ''o_is_yx_isv16'', ''os_yxi_osv16'', ''os_is_yx_osv16_isv16'',
    ''os_is_zyx_osv32_isv16'', ''os_is_zyx_osv64_isv16'', ''os_zyxi_osv16'',
    ''os_is_yx_isv16_osv16'', ''os_is_zyx_isv16_osv16'', ''is_os_zyx_isv16_osv16'',
    ''is_os_yx_isv16_osv16'', ''os_is_yx_isv8_osv16_isv2'', ''os_is_zyx_isv8_osv16_isv2'',
    ''os_iyx_osv32'', ''os_iyx_osv64'', ''image_2d_weights_c4_fyx_b'',
    ''image_2d_weights_c1_b_fyx'', ''winograd_2x3_s1_weights'', ''winograd_2x3_s1_fused_weights'',
    ''winograd_6x3_s1_fused_weights'', ''image_2d_weights_winograd_6x3_s1_fbxyb'',
    ''image_2d_weights_winograd_6x3_s1_xfbyb'', ''os_is_yx_isa8_osv8_isv4'',
    ''os_is_zyx_isa8_osv8_isv4'', ''os_is_yx_isa8_osv16_isv4'', ''os_is_zyx_isa8_osv16_isv4'',
    ''os_is_yx_isa8_osv8_isv4_swizzled_by_4'', ''os_is_yx_osa4_isa8_osv8_isv4_swizzled_by_4'',
    ''os_is_zyx_osa4_isa8_osv8_isv4_swizzled_by_4'', ''os_is_yx_osa4_isa8_osv8_isv2'',
    ''os_is_zyx_osa4_isa8_osv8_isv2'', ''os_is_zyx_osa4_isa8_osv8_isv4'',
    ''os_is_yx_osa4_isa8_osv8_isv4'', ''os_is_yx_osa2_isa8_osv8_isv2'',
    ''os_is_zyx_osa2_isa8_osv8_isv2'', ''os_is_yx_osa2_isa8_osv16_isv2'',
    ''os_is_yx_osa2_isa8_osv16_isv4'', ''os_is_yx_isa8_osv8_isv2'', ''is_os_yx_isa8_osv8_isv2'',
    ''os_is_zyx_isa8_osv8_isv2'', ''is_os_zyx_isa8_osv8_isv2'', ''is_os_yx_isa2_osa8_isv8_osv2'',
    ''is_os_yx_isa4_osa8_isv8_osv4'', ''is_os_yx_osa4_isa8_osv8_isv4'', ''is_o_yx_isv32'',
    ''is_o32_yx_isv32_swizzled_by_4'', ''os_is_y_x8_osv8_isv4'',
    ''os_is_y_x8_osv8_isv4_swizzled_by_4'', ''os_is_yx_osv16_isv4'', ''os_is_yx_osv8_isv4'',
    ''os_is_zyx_osv8_isv4'', ''os_is_yx_osv8_isv2'', ''os_is_zyx_osv8_isv2'',
    ''os_is_zyx_osv16_isv16'', ''os_is_yx_osv32_isv4_swizzled_by_2'', ''os_is_yx_osv32_isv4'',
    ''os_is_zyx_osv32_isv4'', ''os_is_yx_osv32_isv32p'', ''lstm_weights_dio'',
    ''os_is_osv32_isv32_swizzled_by_4'', ''os_iyx_osv32__ai32'', ''iy_xs_os_xsv2_osv8__ao32'',
    ''iy_xs_os_xsv2_osv16__ao32'', ''i_yxs_os_yxsv2_osv16'', ''os_i_yxs_osv4_yxsv4'',
    ''os_i_osv16__ai8'', ''os_i_osv8__ai8'', ''goiyx'', ''gioyx'', ''gyxio'', ''goizyx'',
    ''giozyx'', ''g_os_iyx_osv16'', ''g_os_iyx_osv32'', ''gs_oiyx_gsv16'', ''gs_oizyx_gsv16'',
    ''gs_oiyx_gsv32'', ''gs_oizyx_gsv32'', ''g_is_os_zyx_isv16_osv16'', ''g_os_is_yx_osv16_isv4'',
    ''g_os_is_zyx_osv16_isv16'', ''g_is_os_yx_isv16_osv16'', ''g_os_is_yx_isa8_osv8_isv2'',
    ''g_os_is_zyx_isv8_osv16_isv2'', ''g_os_is_yx_isv8_osv16_isv2'', ''g_os_is_zyx_isv16_osv16'',
    ''g_os_zyx_is_osv16_isv4'', ''g_os_zyx_is_osv16_isv16'', ''g_os_zyx_is_osv16_isv32'',
    ''g_os_zyx_is_osv32_isv4'', ''g_os_zyx_is_osv32_isv16'', ''g_os_zyx_is_osv32_isv32'',
    ''g_os_is_yx_isv16_osv16'', ''g_os_is_yx_osv8_isv2'', ''g_os_is_yx_osv8_isv4'',
    ''gs_oi_yxs_gsv4_yxsv4'', ''gs_oi_yxs_gsv16_yxsv4'', ''gs_oi_yxs_gsv32_yxsv4'',
    ''gi_yxs_os_yxsv2_osv16'', ''giy_xs_os_xsv2_osv8__ao32'', ''giy_xs_os_xsv2_osv16__ao32'',
    ''g_os_is_yx_osa2_isa8_osv8_isv2'', ''g_os_is_yx_osa4_isa8_osv8_isv4'',
    ''g_os_is_yx_osa4_isa8_osv8_isv2'', ''g_os_is_yx_osa2_isa8_osv16_isv2'',
    ''g_os_is_yx_osa2_isa8_osv16_isv4'', ''g_os_is_zyx_osa4_isa8_osv8_isv2'',
    ''g_os_is_zyx_osa4_isa8_osv8_isv4'']"

definition bfyx :: format_type where "bfyx = 0"
definition bfzyx :: format_type where "bfzyx = 1"
definition bfwzyx :: format_type where "bfwzyx = 2"
definition oiyx :: format_type where "oiyx = 38"
definition oizyx :: format_type where "oizyx = 41"
definition goiyx :: format_type where "goiyx = 112"
definition goizyx :: format_type where "goizyx = 115"
definition format_num :: format_type where "format_num = 153"

record format_traits =
  str :: string
  batch_num :: nat
  feature_num :: nat
  spatial_num :: nat
  group_num :: nat
  dims_order :: "nat list"
  order :: string
  internal_order :: string
  block_sizes :: "(nat \<times> int) list"

text \<open>
  The table behind \<^verbatim>\<open>format::traits(fmt)\<close> is not part of the sources at hand: every
  function that consults it takes the lookup \<open>traits\<close> as an argument.
  (\<open>dims_order\<close> is the field \<^verbatim>\<open>_order\<close>.)
\<close>

definition is_grouped :: "(format_type \<Rightarrow> format_traits) \<Rightarrow> format_type \<Rightarrow> bool" where
  "is_grouped traits fmt = (group_num (traits fmt) \<noteq> 0)"

definition is_blocked :: "(format_type \<Rightarrow> format_traits) \<Rightarrow> format_type \<Rightarrow> bool" where
  "is_blocked traits fmt = (\<not> (block_sizes (traits fmt) = []))"

definition dimension :: "(format_type \<Rightarrow> format_traits) \<Rightarrow> format_type \<Rightarrow> nat" where
  "dimension traits fmt = length (order (traits fmt))"

text \<open>\<^verbatim>\<open>format::get_default_format(rank, is_weights, is_grouped)\<close>.\<close>

definition get_default_format :: "nat \<Rightarrow> bool \<Rightarrow> bool \<Rightarrow> format_type" where
  "get_default_format rank is_weights is_grouped_arg =
     (let default_fmt = bfyx in
      if is_weights then
        (if is_grouped_arg then
           (if rank = 5 then goiyx else if rank = 6 then goizyx else default_fmt)
         else
           (if rank = 4 then oiyx else if rank = 5 then oizyx else default_fmt))
      else
        (if rank = 5 then bfzyx else if rank = 6 then bfwzyx else default_fmt))"

text \<open>
  \<^verbatim>\<open>std::string::find_first_of(char)\<close>: the position of the first occurrence, \<open>None\<close>
  for \<^verbatim>\<open>npos\<close>.
\<close>

fun find_first_of :: "string \<Rightarrow> char \<Rightarrow> nat option" where
  "find_first_of [] c = None"
| "find_first_of (x # xs) c =
     (if x = c then Some 0 else map_option Suc (find_first_of xs c))"

text \<open>
  \<^verbatim>\<open>operator[]\<close> of a \<^verbatim>\<open>const std::string\<close>: the character at \<open>pos\<close>, the null
  character at \<open>pos = size()\<close>, undefined behaviour beyond (\<open>None\<close>).
\<close>

definition string_at :: "string \<Rightarrow> nat \<Rightarrow> char option" where
  "string_at s pos =
     (if pos < length s then Some (s ! pos)
      else if pos = length s then Some (CHR 0x00)
      else None)"

text \<open>\<^verbatim>\<open>format::internal_to_external(idx)\<close> of the format whose \<^verbatim>\<open>value\<close> is \<open>fmt\<close>.\<close>

definition internal_to_external ::
  "(format_type \<Rightarrow> format_traits) \<Rightarrow> format_type \<Rightarrow> nat \<Rightarrow> error + nat" where
  "internal_to_external traits fmt idx =
     (case string_at (internal_order (traits fmt)) idx of
        None \<Rightarrow> Inl Out_of_bounds
      | Some c \<Rightarrow>
          (case find_first_of (order (traits fmt)) c of
             None \<Rightarrow> Inl Invalid_argument
           | Some index \<Rightarrow> Inr index))"

section \<open>Layouts and the convolution weights layout\<close>

text \<open>
  A \<^verbatim>\<open>tensor\<close> exposes its spatial extents as the fixed-size array \<^verbatim>\<open>spatial\<close>, read
  and written by index. A \<^verbatim>\<open>layout\<close> pairs a format with a tensor;
  \<^verbatim>\<open>layout::get_rank\<close> is not part of the sources at hand and is an argument
  \<open>get_rank\<close> of the functions that call it.
\<close>

record tensor =
  spatial :: "nat \<Rightarrow> int"

record layout =
  format :: format_type
  get_tensor :: tensor

definition set_tensor :: "tensor \<Rightarrow> layout \<Rightarrow> layout" where
  "set_tensor t l = l\<lparr>get_tensor := t\<rparr>"

definition swap_spatial_0_1 :: "tensor \<Rightarrow> tensor" where
  "swap_spatial_0_1 t = t\<lparr>spatial := (spatial t)(0 := spatial t 1, 1 := spatial t 0)\<rparr>"

text \<open>
  The weights layout computed at the start of
  \<^verbatim>\<open>get_convolution_primitive_descriptor\<close>, before the memory descriptors are built:
  \<open>input_layout\<close> and \<open>weights_layout\<close> are the node's input layouts 0 and 1,
  \<open>grouped_weights_shape\<close> is the primitive's attribute of that name.
\<close>

definition convolution_weights_layout ::
  "(format_type \<Rightarrow> format_traits) \<Rightarrow> (layout \<Rightarrow> nat) \<Rightarrow> bool \<Rightarrow> layout \<Rightarrow> layout \<Rightarrow> layout" where
  "convolution_weights_layout traits get_rank grouped_weights_shape input_layout weights_layout =
     (let grouped_weights = (is_grouped traits (format weights_layout) \<or> grouped_weights_shape) in
      if grouped_weights \<and> get_rank input_layout = get_rank weights_layout then
        (let t = get_tensor weights_layout;
             weights_layout1 =
               (if spatial t 0 = 1 \<and> spatial t 1 \<noteq> 1
                then set_tensor (swap_spatial_0_1 t) weights_layout
                else weights_layout)
         in weights_layout1\<lparr>format := get_default_format (get_rank weights_layout1 + 1) True True\<rparr>)
      else weights_layout)"

section \<open>Concatenation axis conversion\<close>

datatype concat_axis = X | Y | Z | W | FEATURE | BATCH

text \<open>
  \<^verbatim>\<open>convert_axis(int64_t axis, size_t rank)\<close>. Both arguments are 64-bit words, \<open>axis\<close>
  read as signed. The local \<^verbatim>\<open>unsigned cldnn_axis\<close> is a 32-bit word: its initial
  value \<open>normalized_axis\<close> is the 64-bit result narrowed to 32 bits, it is widened to
  64 bits for the comparison with \<open>rank\<close>, and the reversed spatial index, computed in
  \<^verbatim>\<open>size_t\<close>, is narrowed again when stored.
\<close>

definition normalized_axis :: "64 word \<Rightarrow> 64 word \<Rightarrow> 32 word" where
  "normalized_axis axis rank = ucast (if 0 \<le> sint axis then axis else axis + rank)"

definition reverse_spatial :: "32 word \<Rightarrow> 64 word \<Rightarrow> 32 word" where
  "reverse_spatial cldnn_axis rank =
     (if 2 \<le> cldnn_axis then
        (let spatial_axis = cldnn_axis - 2;
             spatial_size = max rank 4 - 2
         in ucast (spatial_size - ucast spatial_axis - 1 + 2))
      else cldnn_axis)"

definition axis_switch :: "64 word \<Rightarrow> 32 word \<Rightarrow> error + concat_axis" where
  "axis_switch axis cldnn_axis =
     (if cldnn_axis = 0 then Inr BATCH
      else if cldnn_axis = 1 then Inr FEATURE
      else if cldnn_axis = 2 then Inr X
      else if cldnn_axis = 3 then Inr Y
      else if cldnn_axis = 4 then Inr Z
      else if cldnn_axis = 5 then Inr W
      else Inl (Unsupported_axis axis))"

definition convert_axis :: "64 word \<Rightarrow> 64 word \<Rightarrow> error + concat_axis" where
  "convert_axis axis rank =
     (let cldnn_axis = normalized_axis axis rank in
      if rank \<le> ucast cldnn_axis then Inl Axis_exceeds_dimensions
      else axis_switch axis (reverse_spatial cldnn_axis rank))"

section \<open>Kernel selection and compiled implementations\<close>

text \<open>
  A kernel selector is a function \<open>GetBestKernels\<close> from a parameter record and an optional
  parameter record to its ranked list of candidates (\<^verbatim>\<open>kernel_data\<close>), best first. The
  selector, \<^verbatim>\<open>get_default_params\<close>, \<^verbatim>\<open>get_default_optional_params\<close> and
  \<^verbatim>\<open>convert_data_tensor\<close> are not part of the sources at hand: each \<^verbatim>\<open>create\<close> takes them as
  arguments, \<open>'t\<close> being the type of a converted data tensor.

  Each \<^verbatim>\<open>create\<close> returns a pair: the list of selector invocations it made (the parameter
  records it passed, in order) and its outcome.
\<close>

record kernel_data =
  kernels :: "string list"
  kernelName :: string

text \<open>The value-initialised \<^verbatim>\<open>kernel_data\<close> written \<^verbatim>\<open>{}\<close>.\<close>

definition empty_kernel_data :: kernel_data where
  "empty_kernel_data = \<lparr>kernels = [], kernelName = []\<rparr>"

record 't base_params =
  inputs :: "'t list"
  outputs :: "'t list"

record kernel_impl_params =
  input_layouts :: "layout list"
  output_layout :: layout

record program_node =
  node_id :: primitive_id
  inputs_count :: nat

text \<open>
  Modelled from the spec: the macros \<^verbatim>\<open>CLDNN_ERROR_BOOL\<close>, \<^verbatim>\<open>CLDNN_ERROR_NOT_EQUAL\<close> and
  \<^verbatim>\<open>CLDNN_ERROR_LESS_THAN\<close> of \<^verbatim>\<open>error_handler.hpp\<close>, which is not part of the sources at
  hand. A failed check is a fatal failure reported with the node identifier and the
  message given as the macro's last argument.
\<close>

definition CLDNN_ERROR_BOOL :: "primitive_id \<Rightarrow> string \<Rightarrow> bool \<Rightarrow> string \<Rightarrow> error + unit" where
  "CLDNN_ERROR_BOOL nid condition_id condition msg =
     (if condition then Inl (Cldnn_error nid msg) else Inr ())"

definition CLDNN_ERROR_NOT_EQUAL ::
  "primitive_id \<Rightarrow> string \<Rightarrow> nat \<Rightarrow> string \<Rightarrow> nat \<Rightarrow> string \<Rightarrow> error + unit" where
  "CLDNN_ERROR_NOT_EQUAL nid number_id number compare_to_id compare_to msg =
     (if number \<noteq> compare_to then Inl (Cldnn_error nid msg) else Inr ())"

definition CLDNN_ERROR_LESS_THAN ::
  "primitive_id \<Rightarrow> string \<Rightarrow> 64 word \<Rightarrow> string \<Rightarrow> 64 word \<Rightarrow> string \<Rightarrow> error + unit" where
  "CLDNN_ERROR_LESS_THAN nid number_id number compare_to_id compare_to msg =
     (if number < compare_to then Inl (Cldnn_error nid msg) else Inr ())"

definition no_proper_kernel :: string where
  "no_proper_kernel = ''Cannot find a proper kernel with this arguments''"

text \<open>
  Unchecked \<^verbatim>\<open>operator[]\<close> reads of a vector at the given indices, in order; a read past
  the end is \<open>Out_of_bounds\<close>.
\<close>

fun read_at :: "'a list \<Rightarrow> nat list \<Rightarrow> error + 'a list" where
  "read_at xs [] = Inr []"
| "read_at xs (i # is) =
     (if i < length xs then
        (case read_at xs is of Inl e \<Rightarrow> Inl e | Inr r \<Rightarrow> Inr (xs ! i # r))
      else Inl Out_of_bounds)"

text \<open>
  Modelled from the spec: the constructor \<^verbatim>\<open>typed_primitive_impl_ocl(arg, kd)\<close> of the common
  base class, which is not part of the sources at hand. A Compiled Implementation wraps
  exactly one candidate: the base part stores \<open>kd\<close>.
\<close>

record typed_primitive_impl_ocl =
  impl_kernel_data :: kernel_data

definition typed_primitive_impl_ocl_ctor :: "'n program_node_scheme \<Rightarrow> kernel_data \<Rightarrow> typed_primitive_impl_ocl" where
  "typed_primitive_impl_ocl_ctor arg kd = \<lparr>impl_kernel_data = kd\<rparr>"

subsection \<open>Quantize\<close>

record 'f quantize_node = program_node +
  get_levels :: int
  get_packed_binary_output :: bool
  get_scale_shift_opt :: bool
  get_need_post_scale :: bool
  get_need_post_shift :: bool
  get_need_pre_shift :: bool
  get_need_clamp :: bool
  get_need_min_clamp :: bool
  get_need_max_clamp :: bool
  get_per_tensor_input_range :: bool
  get_per_tensor_input_scale :: bool
  get_per_tensor_input_shift :: bool
  get_per_tensor_output_range :: bool
  get_per_tensor_output_scale :: bool
  get_per_tensor_output_shift :: bool
  get_input_lo_val :: 'f
  get_input_hi_val :: 'f
  get_input_scale_val :: 'f
  get_input_shift_val :: 'f
  get_output_lo_val :: 'f
  get_output_hi_val :: 'f
  get_output_scale_val :: 'f
  get_output_shift_val :: 'f

record ('t, 'f) quantize_params = "'t base_params" +
  levels :: int
  packed_binary_output :: bool
  scale_shift_opt :: bool
  has_post_scale :: bool
  has_post_shift :: bool
  has_pre_shift :: bool
  has_clamp :: bool
  has_min_clamp :: bool
  has_max_clamp :: bool
  per_tensor_input_range :: bool
  per_tensor_input_scale :: bool
  per_tensor_input_shift :: bool
  per_tensor_output_range :: bool
  per_tensor_output_scale :: bool
  per_tensor_output_shift :: bool
  in_lo :: 'f
  in_hi :: 'f
  in_scale :: 'f
  in_shift :: 'f
  out_lo :: 'f
  out_hi :: 'f
  out_scale :: 'f
  out_shift :: 'f

type_synonym quantize_impl = typed_primitive_impl_ocl

definition quantize_impl_create ::
  "(kernel_impl_params \<Rightarrow> ('t, 'f) quantize_params) \<Rightarrow> 'o \<Rightarrow> (layout \<Rightarrow> 't) \<Rightarrow>
   (('t, 'f) quantize_params \<Rightarrow> 'o \<Rightarrow> kernel_data list) \<Rightarrow>
   'f quantize_node \<Rightarrow> kernel_impl_params \<Rightarrow>
   (('t, 'f) quantize_params \<times> 'o) list \<times> (error + quantize_impl)" where
  "quantize_impl_create get_default_params quantize_optional_params convert_data_tensor GetBestKernels
       arg impl_param =
     (let quantize_params = (get_default_params impl_param)
            \<lparr>levels := get_levels arg,
             packed_binary_output := get_packed_binary_output arg,
             scale_shift_opt := get_scale_shift_opt arg,
             has_post_scale := get_need_post_scale arg,
             has_post_shift := get_need_post_shift arg,
             has_pre_shift := get_need_pre_shift arg,
             has_clamp := get_need_clamp arg,
             has_min_clamp := get_need_min_clamp arg,
             has_max_clamp := get_need_max_clamp arg,
             per_tensor_input_range := get_per_tensor_input_range arg,
             per_tensor_input_scale := get_per_tensor_input_scale arg,
             per_tensor_input_shift := get_per_tensor_input_shift arg,
             per_tensor_output_range := get_per_tensor_output_range arg,
             per_tensor_output_scale := get_per_tensor_output_scale arg,
             per_tensor_output_shift := get_per_tensor_output_shift arg,
             in_lo := get_input_lo_val arg,
             in_hi := get_input_hi_val arg,
             in_scale := get_input_scale_val arg,
             in_shift := get_input_shift_val arg,
             out_lo := get_output_lo_val arg,
             out_hi := get_output_hi_val arg,
             out_scale := get_output_scale_val arg,
             out_shift := get_output_shift_val arg\<rparr>
      in case read_at (input_layouts impl_param) [1 ..< inputs_count arg] of
           Inl e \<Rightarrow> ([], Inl e)
         | Inr ls \<Rightarrow>
             (let quantize_params = quantize_params
                    \<lparr>inputs := inputs quantize_params @ map convert_data_tensor ls,
                     outputs := [convert_data_tensor (output_layout impl_param)]\<rparr>;
                  best_kernels = GetBestKernels quantize_params quantize_optional_params
              in ([(quantize_params, quantize_optional_params)],
                  case CLDNN_ERROR_BOOL (node_id arg) ''Best_kernel.empty()'' (best_kernels = [])
                         no_proper_kernel of
                    Inl e \<Rightarrow> Inl e
                  | Inr _ \<Rightarrow> Inr (typed_primitive_impl_ocl_ctor arg (best_kernels ! 0)))))"

subsection \<open>Concatenation\<close>

record concatenation_node = program_node +
  can_be_optimized :: bool
  prim_axis :: "64 word"

record activation_node = program_node +
  is_parameterized :: bool

text \<open>
  A \<^verbatim>\<open>const program_node&\<close> whose dynamic type is tested with \<^verbatim>\<open>is_type\<close> and
  recovered with \<^verbatim>\<open>as\<close>.
\<close>

datatype program_node_ref =
    Concatenation_node concatenation_node
  | Activation_node activation_node
  | Other_node program_node

record 't concatenation_params = "'t base_params" +
  axis :: concat_axis

record concatenation_optional_params =
  kernelPerInput :: bool

text \<open>
  \<^verbatim>\<open>concatenation_impl\<close>: the base part and the member \<^verbatim>\<open>bool _can_be_optimized\<close>
  (\<open>impl_can_be_optimized\<close>), held in the object itself.
\<close>

record concatenation_impl = typed_primitive_impl_ocl +
  impl_can_be_optimized :: bool

definition concatenation_impl_set_node_params ::
  "program_node_ref \<Rightarrow> concatenation_impl \<Rightarrow> error + concatenation_impl" where
  "concatenation_impl_set_node_params arg this =
     (case arg of
        Concatenation_node node \<Rightarrow> Inr (this\<lparr>impl_can_be_optimized := can_be_optimized node\<rparr>)
      | _ \<Rightarrow> Inl Assert_failed)"

text \<open>
  The constructor from a node and a candidate. The member is indeterminate until
  \<^verbatim>\<open>set_node_params\<close> stores it and is not read before; the model starts it at \<open>False\<close>.
\<close>

definition concatenation_impl_ctor :: "concatenation_node \<Rightarrow> kernel_data \<Rightarrow> error + concatenation_impl" where
  "concatenation_impl_ctor arg kd =
     (let this = typed_primitive_impl_ocl.extend (typed_primitive_impl_ocl_ctor arg kd)
                   (concatenation_impl.fields False)
      in case (if \<not> can_be_optimized arg
               then CLDNN_ERROR_NOT_EQUAL (node_id arg) ''Input count'' (inputs_count arg)
                      ''kds size'' (length (kernels kd))
                      ''Error - not enough kernels for concatenation''
               else Inr ()) of
           Inl e \<Rightarrow> Inl e
         | Inr _ \<Rightarrow> concatenation_impl_set_node_params (Concatenation_node arg) this)"

text \<open>The copy constructor \<^verbatim>\<open>concatenation_impl(const concatenation_impl& other)\<close>.\<close>

definition concatenation_impl_copy :: "concatenation_impl \<Rightarrow> concatenation_impl" where
  "concatenation_impl_copy other =
     typed_primitive_impl_ocl.extend (typed_primitive_impl_ocl.truncate other)
       (concatenation_impl.fields (impl_can_be_optimized other))"

definition concatenation_impl_create ::
  "(kernel_impl_params \<Rightarrow> 't concatenation_params) \<Rightarrow> concatenation_optional_params \<Rightarrow>
   (layout \<Rightarrow> 't) \<Rightarrow> (layout \<Rightarrow> 64 word) \<Rightarrow>
   ('t concatenation_params \<Rightarrow> concatenation_optional_params \<Rightarrow> kernel_data list) \<Rightarrow>
   concatenation_node \<Rightarrow> kernel_impl_params \<Rightarrow>
   ('t concatenation_params \<times> concatenation_optional_params) list \<times> (error + concatenation_impl)" where
  "concatenation_impl_create get_default_params default_optional_params convert_data_tensor get_rank
       GetBestKernels arg impl_param =
     (if can_be_optimized arg then ([], concatenation_impl_ctor arg empty_kernel_data)
      else
        (let concat_params = get_default_params impl_param;
             concat_optional_params = default_optional_params;
             axis_attr = prim_axis arg
         in case read_at (input_layouts impl_param) [0 ..< inputs_count arg] of
              Inl e \<Rightarrow> ([], Inl e)
            | Inr ls \<Rightarrow>
               (let concat_params = concat_params\<lparr>inputs := map convert_data_tensor ls\<rparr>
                in case convert_axis axis_attr (get_rank (output_layout impl_param)) of
                     Inl e \<Rightarrow> ([], Inl e)
                   | Inr a \<Rightarrow>
                      (let concat_params = concat_params\<lparr>axis := a\<rparr>;
                           concat_optional_params = concat_optional_params\<lparr>kernelPerInput := True\<rparr>;
                           best_kernels = GetBestKernels concat_params concat_optional_params
                       in ([(concat_params, concat_optional_params)],
                           case CLDNN_ERROR_BOOL (node_id arg) ''Best_kernel.empty()''
                                  (best_kernels = []) no_proper_kernel of
                             Inl e \<Rightarrow> Inl e
                           | Inr _ \<Rightarrow> concatenation_impl_ctor arg (best_kernels ! 0))))))"

subsection \<open>Activation\<close>

text \<open>
  \<open>'a\<close> is the type of an entry of \<^verbatim>\<open>activation_params.activations\<close>. Not part of the
  sources at hand and taken as arguments: \<open>convert_new_activation_func\<close>, which fills
  that list from the node's primitive; \<open>count\<close>, the element count of a layout; and
  \<open>required_count output_layout a\<close>, the value of
  \<^verbatim>\<open>static_cast<size_t>(output_layout.feature() * params_num)\<close> where \<^verbatim>\<open>params_num\<close> is
  \<^verbatim>\<open>GetActivationAdditionalParamsNumber(a.function)\<close>.
\<close>

record ('t, 'a) activation_params = "'t base_params" +
  activations :: "'a list"
  inputActivationParams :: "'t list"

text \<open>
  \<^verbatim>\<open>activation_impl\<close>: the base part and the member \<^verbatim>\<open>bool _is_parameterized\<close>
  (\<open>impl_is_parameterized\<close>), held in the object itself.
\<close>

record activation_impl = typed_primitive_impl_ocl +
  impl_is_parameterized :: bool

definition activation_impl_set_node_params ::
  "program_node_ref \<Rightarrow> activation_impl \<Rightarrow> error + activation_impl" where
  "activation_impl_set_node_params arg this =
     (case arg of
        Activation_node node \<Rightarrow> Inr (this\<lparr>impl_is_parameterized := is_parameterized node\<rparr>)
      | _ \<Rightarrow> Inl Assert_failed)"

definition activation_impl_ctor :: "activation_node \<Rightarrow> kernel_data \<Rightarrow> error + activation_impl" where
  "activation_impl_ctor arg kd =
     activation_impl_set_node_params (Activation_node arg)
       (typed_primitive_impl_ocl.extend (typed_primitive_impl_ocl_ctor arg kd)
          (activation_impl.fields False))"

text \<open>The copy constructor \<^verbatim>\<open>activation_impl(const activation_impl& other)\<close>.\<close>

definition activation_impl_copy :: "activation_impl \<Rightarrow> activation_impl" where
  "activation_impl_copy other =
     typed_primitive_impl_ocl.extend (typed_primitive_impl_ocl.truncate other)
       (activation_impl.fields (impl_is_parameterized other))"

definition activation_impl_create ::
  "(kernel_impl_params \<Rightarrow> ('t, 'a) activation_params) \<Rightarrow> 'o \<Rightarrow> (layout \<Rightarrow> 't) \<Rightarrow>
   (activation_node \<Rightarrow> 'a list \<Rightarrow> 'a list) \<Rightarrow> (layout \<Rightarrow> 64 word) \<Rightarrow> (layout \<Rightarrow> 'a \<Rightarrow> 64 word) \<Rightarrow>
   (('t, 'a) activation_params \<Rightarrow> 'o \<Rightarrow> kernel_data list) \<Rightarrow>
   activation_node \<Rightarrow> kernel_impl_params \<Rightarrow>
   (('t, 'a) activation_params \<times> 'o) list \<times> (error + activation_impl)" where
  "activation_impl_create get_default_params activation_optional_params convert_data_tensor
       convert_new_activation_func count required_count GetBestKernels arg impl_param =
     (let activation_params = get_default_params impl_param;
          activation_params = activation_params
            \<lparr>activations := convert_new_activation_func arg (activations activation_params)\<rparr>;
          checked =
            (if is_parameterized arg then
               (case read_at (input_layouts impl_param) [1] of
                  Inl e \<Rightarrow> Inl e
                | Inr ls \<Rightarrow>
                   (let slope_layout = ls ! 0 in
                    case read_at (activations activation_params) [0] of
                      Inl e \<Rightarrow> Inl e
                    | Inr acts \<Rightarrow>
                       (case CLDNN_ERROR_LESS_THAN (node_id arg) ''Slope layout size count''
                               (count slope_layout) ''output_layout.feature() * params_num''
                               (required_count (output_layout impl_param) (acts ! 0))
                               ''Error - not enough data inside additional params buffer'' of
                          Inl e \<Rightarrow> Inl e
                        | Inr _ \<Rightarrow>
                            Inr (activation_params
                                  \<lparr>inputActivationParams :=
                                     inputActivationParams activation_params
                                       @ [convert_data_tensor slope_layout]\<rparr>))))
             else Inr activation_params)
      in case checked of
           Inl e \<Rightarrow> ([], Inl e)
         | Inr activation_params \<Rightarrow>
            (let best_kernels = GetBestKernels activation_params activation_optional_params
             in ([(activation_params, activation_optional_params)],
                 case CLDNN_ERROR_BOOL (node_id arg) ''Best_kernel.empty()'' (best_kernels = [])
                        no_proper_kernel of
                   Inl e \<Rightarrow> Inl e
                 | Inr _ \<Rightarrow> activation_impl_ctor arg (best_kernels ! 0))))"

subsection \<open>Patch extraction and colour conversion\<close>

record extract_image_patches_node = program_node +
  prim_sizes :: "nat list"
  prim_strides :: "nat list"
  prim_rates :: "nat list"
  prim_auto_pad :: string

record 't extract_image_patches_params = "'t base_params" +
  sizes :: "nat list"
  strides :: "nat list"
  rates :: "nat list"
  auto_pad :: string

type_synonym extract_image_patches_impl = typed_primitive_impl_ocl

definition extract_image_patches_impl_create ::
  "(kernel_impl_params \<Rightarrow> 't extract_image_patches_params) \<Rightarrow> 'o \<Rightarrow>
   ('t extract_image_patches_params \<Rightarrow> 'o \<Rightarrow> kernel_data list) \<Rightarrow>
   extract_image_patches_node \<Rightarrow> kernel_impl_params \<Rightarrow>
   ('t extract_image_patches_params \<times> 'o) list \<times> (error + extract_image_patches_impl)" where
  "extract_image_patches_impl_create get_default_params optional_params GetBestKernels arg impl_param =
     (let params = (get_default_params impl_param)
            \<lparr>sizes := prim_sizes arg,
             strides := prim_strides arg,
             rates := prim_rates arg,
             auto_pad := prim_auto_pad arg\<rparr>;
          best_kernels = GetBestKernels params optional_params
      in ([(params, optional_params)],
          case CLDNN_ERROR_BOOL (node_id arg) ''Best_kernel.empty()'' (best_kernels = [])
                 no_proper_kernel of
            Inl e \<Rightarrow> Inl e
          | Inr _ \<Rightarrow> Inr (typed_primitive_impl_ocl_ctor arg (best_kernels ! 0))))"

text \<open>
  The colour formats and the memory type are enumerations converted by
  \<^verbatim>\<open>static_cast\<close>, which keeps the enumerator value: they are modelled by that value.
\<close>

record convert_color_node = program_node +
  prim_input_color_format :: int
  prim_output_color_format :: int
  prim_mem_type :: int

record 't convert_color_params = "'t base_params" +
  input_color_format :: int
  output_color_format :: int
  mem_type :: int

type_synonym convert_color_impl = typed_primitive_impl_ocl

definition convert_color_impl_create ::
  "(kernel_impl_params \<Rightarrow> 't convert_color_params) \<Rightarrow> 'o \<Rightarrow> (layout \<Rightarrow> 't) \<Rightarrow>
   ('t convert_color_params \<Rightarrow> 'o \<Rightarrow> kernel_data list) \<Rightarrow>
   convert_color_node \<Rightarrow> kernel_impl_params \<Rightarrow>
   ('t convert_color_params \<times> 'o) list \<times> (error + convert_color_impl)" where
  "convert_color_impl_create get_default_params convert_color_optional_params convert_data_tensor
       GetBestKernels arg impl_param =
     (let convert_color_params = get_default_params impl_param;
          convert_color_params = convert_color_params
            \<lparr>inputs := inputs convert_color_params
                 @ map convert_data_tensor (drop 1 (input_layouts impl_param))\<rparr>;
          convert_color_params = convert_color_params
            \<lparr>input_color_format := prim_input_color_format arg,
             output_color_format := prim_output_color_format arg,
             mem_type := prim_mem_type arg\<rparr>;
          best_kernels = GetBestKernels convert_color_params convert_color_optional_params
      in ([(convert_color_params, convert_color_optional_params)],
          case CLDNN_ERROR_BOOL (node_id arg) ''Best_kernel.empty()'' (best_kernels = [])
                 no_proper_kernel of
            Inl e \<Rightarrow> Inl e
          | Inr _ \<Rightarrow> Inr (typed_primitive_impl_ocl_ctor arg (best_kernels ! 0))))"

subsection \<open>Space to batch\<close>

text \<open>
  \<^verbatim>\<open>convert_dim_vector\<close> is not part of the sources at hand and is an argument; \<open>'v\<close> is
  the type of its result.
\<close>

record space_to_batch_node = program_node +
  prim_block_shape :: tensor
  prim_pads_begin :: tensor
  prim_pads_end :: tensor

record ('t, 'v) space_to_batch_params = "'t base_params" +
  block_shape :: 'v
  pads_begin :: 'v
  pads_end :: 'v

type_synonym space_to_batch_impl = typed_primitive_impl_ocl

definition space_to_batch_impl_create ::
  "(kernel_impl_params \<Rightarrow> ('t, 'v) space_to_batch_params) \<Rightarrow> 'o \<Rightarrow> (tensor \<Rightarrow> 'v) \<Rightarrow>
   (('t, 'v) space_to_batch_params \<Rightarrow> 'o \<Rightarrow> kernel_data list) \<Rightarrow>
   space_to_batch_node \<Rightarrow> kernel_impl_params \<Rightarrow>
   (('t, 'v) space_to_batch_params \<times> 'o) list \<times> (error + space_to_batch_impl)" where
  "space_to_batch_impl_create get_default_params space_to_batch_optional_params convert_dim_vector
       GetBestKernels arg impl_param =
     (let space_to_batch_params = (get_default_params impl_param)
            \<lparr>block_shape := convert_dim_vector (prim_block_shape arg),
             pads_begin := convert_dim_vector (prim_pads_begin arg),
             pads_end := convert_dim_vector (prim_pads_end arg)\<rparr>;
          best_kernels = GetBestKernels space_to_batch_params space_to_batch_optional_params
      in ([(space_to_batch_params, space_to_batch_optional_params)],
          case CLDNN_ERROR_BOOL (node_id arg) ''Best_kernel.empty()'' (best_kernels = [])
                 no_proper_kernel of
            Inl e \<Rightarrow> Inl e
          | Inr _ \<Rightarrow> Inr (typed_primitive_impl_ocl_ctor arg (best_kernels ! 0))))"

subsection \<open>Non-max suppression\<close>

text \<open>
  The node reports six capabilities (\<open>node_has_\<dots>\<close>, the methods \<^verbatim>\<open>has_\<dots>()\<close> of the
  node) and gives the output layout of the scores input and of each optional dependency
  (\<open>\<dots>_layout\<close>, the value of \<^verbatim>\<open>\<dots>_node().get_output_layout()\<close>). These accessors are not
  part of the sources at hand; the model gives every node a layout for each of them.
\<close>

record non_max_suppression_node = program_node +
  input_scores_layout :: layout
  node_has_num_select_per_class :: bool
  num_select_per_class_layout :: layout
  node_has_iou_threshold :: bool
  iou_threshold_layout :: layout
  node_has_score_threshold :: bool
  score_threshold_layout :: layout
  node_has_soft_nms_sigma :: bool
  soft_nms_sigma_layout :: layout
  node_has_second_output :: bool
  second_output_layout :: layout
  node_has_third_output :: bool
  third_output_layout :: layout
  prim_sort_result_descending :: bool
  prim_center_point_box :: bool

datatype BoxEncodingType = BOX_ENCODING_CORNER | BOX_ENCODING_CENTER

record 't non_max_suppression_params = "'t base_params" +
  has_num_select_per_class :: bool
  has_iou_threshold :: bool
  has_score_threshold :: bool
  has_soft_nms_sigma :: bool
  has_second_output :: bool
  has_third_output :: bool
  sort_result_descending :: bool
  box_encoding :: BoxEncodingType

type_synonym non_max_suppression_gpu = typed_primitive_impl_ocl

text \<open>
  The parameter record that \<^verbatim>\<open>non_max_suppression_gpu::create\<close> passes to the selector,
  built from \<open>params\<close>, the result of \<^verbatim>\<open>get_default_params\<close> for the node.
\<close>

definition non_max_suppression_build_params ::
  "(layout \<Rightarrow> 't) \<Rightarrow> 't non_max_suppression_params \<Rightarrow> non_max_suppression_node \<Rightarrow>
   't non_max_suppression_params" where
  "non_max_suppression_build_params convert_data_tensor params arg =
     (let params = params\<lparr>inputs := inputs params @ [convert_data_tensor (input_scores_layout arg)]\<rparr>;
          params = (if node_has_num_select_per_class arg
                    then params\<lparr>inputs := inputs params
                                   @ [convert_data_tensor (num_select_per_class_layout arg)],
                                 has_num_select_per_class := True\<rparr>
                    else params);
          params = (if node_has_iou_threshold arg
                    then params\<lparr>inputs := inputs params
                                   @ [convert_data_tensor (iou_threshold_layout arg)],
                                 has_iou_threshold := True\<rparr>
                    else params);
          params = (if node_has_score_threshold arg
                    then params\<lparr>inputs := inputs params
                                   @ [convert_data_tensor (score_threshold_layout arg)],
                                 has_score_threshold := True\<rparr>
                    else params);
          params = (if node_has_soft_nms_sigma arg
                    then params\<lparr>inputs := inputs params
                                   @ [convert_data_tensor (soft_nms_sigma_layout arg)],
                                 has_soft_nms_sigma := True\<rparr>
                    else params);
          params = (if node_has_second_output arg
                    then params\<lparr>inputs := inputs params
                                   @ [convert_data_tensor (second_output_layout arg)],
                                 has_second_output := True\<rparr>
                    else params);
          params = (if node_has_second_output arg
                    then params\<lparr>inputs := inputs params
                                   @ [convert_data_tensor (third_output_layout arg)],
                                 has_third_output := True\<rparr>
                    else params)
      in params\<lparr>sort_result_descending := prim_sort_result_descending arg,
                box_encoding := (if prim_center_point_box arg
                                 then BOX_ENCODING_CENTER else BOX_ENCODING_CORNER)\<rparr>)"

definition non_max_suppression_gpu_create ::
  "(non_max_suppression_node \<Rightarrow> 't non_max_suppression_params) \<Rightarrow> 'o \<Rightarrow> (layout \<Rightarrow> 't) \<Rightarrow>
   ('t non_max_suppression_params \<Rightarrow> 'o \<Rightarrow> kernel_data list) \<Rightarrow>
   non_max_suppression_node \<Rightarrow>
   ('t non_max_suppression_params \<times> 'o) list \<times> (error + non_max_suppression_gpu)" where
  "non_max_suppression_gpu_create get_default_params optional_params convert_data_tensor
       GetBestKernels arg =
     (let params = non_max_suppression_build_params convert_data_tensor (get_default_params arg) arg;
          best_kernels = GetBestKernels params optional_params
      in ([(params, optional_params)],
          case CLDNN_ERROR_BOOL (node_id arg) ''Best_kernel.empty()'' (best_kernels = [])
                 no_proper_kernel of
            Inl e \<Rightarrow> Inl e
          | Inr _ \<Rightarrow> Inr (typed_primitive_impl_ocl_ctor arg (best_kernels ! 0))))"

subsection \<open>Cloning\<close>

text \<open>
  Implementation objects live in a store, a list indexed by address.
  \<^verbatim>\<open>make_unique<T>(x)\<close> allocates a new object at the first unused address and initialises
  it with the copy constructor of \<open>T\<close> applied to \<open>x\<close>; \<^verbatim>\<open>clone()\<close> of the object at
  address \<open>this\<close> is \<^verbatim>\<open>make_unique<T>(*this)\<close> and returns the new address. A member
  function that writes a member of the object at an address updates the store there.
\<close>

definition make_unique :: "('a \<Rightarrow> 'a) \<Rightarrow> 'a list \<Rightarrow> 'a \<Rightarrow> nat \<times> 'a list" where
  "make_unique copy_ctor store x = (length store, store @ [copy_ctor x])"

definition concatenation_impl_clone :: "concatenation_impl list \<Rightarrow> nat \<Rightarrow> nat \<times> concatenation_impl list" where
  "concatenation_impl_clone store this = make_unique concatenation_impl_copy store (store ! this)"

definition activation_impl_clone :: "activation_impl list \<Rightarrow> nat \<Rightarrow> nat \<times> activation_impl list" where
  "activation_impl_clone store this = make_unique activation_impl_copy store (store ! this)"

text \<open>
  \<^verbatim>\<open>set_node_params\<close> called on the object at address \<open>this\<close>: the store afterwards, or the
  failure of the assertion.
\<close>

definition concatenation_set_node_params_at ::
  "concatenation_impl list \<Rightarrow> nat \<Rightarrow> program_node_ref \<Rightarrow> error + concatenation_impl list" where
  "concatenation_set_node_params_at store this arg =
     (case concatenation_impl_set_node_params arg (store ! this) of
        Inl e \<Rightarrow> Inl e
      | Inr obj \<Rightarrow> Inr (store[this := obj]))"

definition activation_set_node_params_at ::
  "activation_impl list \<Rightarrow> nat \<Rightarrow> program_node_ref \<Rightarrow> error + activation_impl list" where
  "activation_set_node_params_at store this arg =
     (case activation_impl_set_node_params arg (store ! this) of
        Inl e \<Rightarrow> Inl e
      | Inr obj \<Rightarrow> Inr (store[this := obj]))"

section \<open>Sample inputs\<close>

text \<open>
  Concrete inputs on which the properties below are evaluated. \<open>sample_traits\<close> is one
  descriptor given to every format, whose internal order ends in a character that its
  order does not have; it stands for no entry of the table of the sources.
\<close>

definition sample_traits :: "format_type \<Rightarrow> format_traits" where
  "sample_traits fmt =
     \<lparr>str = ''sample'', batch_num = 1, feature_num = 1, spatial_num = 2, group_num = 0,
      dims_order = [0, 1, 2, 3], order = ''bfyx'', internal_order = ''bfxy?'',
      block_sizes = []\<rparr>"

definition sample_layout :: "format_type \<Rightarrow> int \<Rightarrow> int \<Rightarrow> layout" where
  "sample_layout fmt s0 s1 = \<lparr>format = fmt, get_tensor = \<lparr>spatial = (\<lambda>_. 1)(0 := s0, 1 := s1)\<rparr>\<rparr>"

text \<open>
  Two candidates, three selectors (one that finds nothing, one that ranks \<open>sample_kd1\<close>
  first, one that returns \<open>sample_kd2\<close> alone), a node of each operator, default parameter records with no tensors and no
  flag set, and node parameters with two input layouts. Data tensors are the layouts
  themselves.
\<close>

definition sample_kd1 :: kernel_data where
  "sample_kd1 = \<lparr>kernels = [''k0'', ''k1''], kernelName = ''first''\<rparr>"

definition sample_kd2 :: kernel_data where
  "sample_kd2 = \<lparr>kernels = [''k2''], kernelName = ''second''\<rparr>"

definition select_none :: "'p \<Rightarrow> 'o \<Rightarrow> kernel_data list" where
  "select_none p opt = []"

definition select_two :: "'p \<Rightarrow> 'o \<Rightarrow> kernel_data list" where
  "select_two p opt = [sample_kd1, sample_kd2]"

definition sample_impl_param :: kernel_impl_params where
  "sample_impl_param =
     \<lparr>input_layouts = [sample_layout bfyx 4 4, sample_layout bfyx 4 4],
      output_layout = sample_layout bfyx 4 4\<rparr>"

definition sample_quantize_node :: "int quantize_node" where
  "sample_quantize_node =
     \<lparr>node_id = ''quantize'', inputs_count = 2, get_levels = 256,
      get_packed_binary_output = False, get_scale_shift_opt = True,
      get_need_post_scale = True, get_need_post_shift = False, get_need_pre_shift = False,
      get_need_clamp = True, get_need_min_clamp = True, get_need_max_clamp = False,
      get_per_tensor_input_range = True, get_per_tensor_input_scale = True,
      get_per_tensor_input_shift = True, get_per_tensor_output_range = True,
      get_per_tensor_output_scale = True, get_per_tensor_output_shift = True,
      get_input_lo_val = 0, get_input_hi_val = 255, get_input_scale_val = 1,
      get_input_shift_val = 0, get_output_lo_val = 0, get_output_hi_val = 255,
      get_output_scale_val = 1, get_output_shift_val = 0\<rparr>"

definition sample_quantize_defaults :: "kernel_impl_params \<Rightarrow> (layout, int) quantize_params" where
  "sample_quantize_defaults ip =
     \<lparr>inputs = [], outputs = [], levels = 0,
      packed_binary_output = False, scale_shift_opt = False,
      has_post_scale = False, has_post_shift = False, has_pre_shift = False,
      has_clamp = False, has_min_clamp = False, has_max_clamp = False,
      per_tensor_input_range = False, per_tensor_input_scale = False,
      per_tensor_input_shift = False, per_tensor_output_range = False,
      per_tensor_output_scale = False, per_tensor_output_shift = False,
      in_lo = 0, in_hi = 0, in_scale = 0, in_shift = 0,
      out_lo = 0, out_hi = 0, out_scale = 0, out_shift = 0\<rparr>"

definition sample_concatenation_node :: "bool \<Rightarrow> 64 word \<Rightarrow> concatenation_node" where
  "sample_concatenation_node optimized a =
     \<lparr>node_id = ''concat'', inputs_count = 2, can_be_optimized = optimized, prim_axis = a\<rparr>"

definition sample_concatenation_defaults :: "kernel_impl_params \<Rightarrow> layout concatenation_params" where
  "sample_concatenation_defaults ip = \<lparr>inputs = [], outputs = [], axis = FEATURE\<rparr>"

definition sample_activation_node :: "bool \<Rightarrow> activation_node" where
  "sample_activation_node parameterized =
     \<lparr>node_id = ''activation'', inputs_count = 2, is_parameterized = parameterized\<rparr>"

definition sample_activation_defaults :: "kernel_impl_params \<Rightarrow> (layout, nat) activation_params" where
  "sample_activation_defaults ip =
     \<lparr>inputs = [], outputs = [], activations = [], inputActivationParams = []\<rparr>"

definition sample_extract_image_patches_node :: extract_image_patches_node where
  "sample_extract_image_patches_node =
     \<lparr>node_id = ''patches'', inputs_count = 1, prim_sizes = [3, 3], prim_strides = [1, 1],
      prim_rates = [1, 1], prim_auto_pad = ''valid''\<rparr>"

definition sample_extract_image_patches_defaults ::
  "kernel_impl_params \<Rightarrow> layout extract_image_patches_params" where
  "sample_extract_image_patches_defaults ip =
     \<lparr>inputs = [], outputs = [], sizes = [], strides = [], rates = [], auto_pad = []\<rparr>"

definition sample_convert_color_node :: convert_color_node where
  "sample_convert_color_node =
     \<lparr>node_id = ''color'', inputs_count = 2, prim_input_color_format = 0,
      prim_output_color_format = 1, prim_mem_type = 0\<rparr>"

definition sample_convert_color_defaults :: "kernel_impl_params \<Rightarrow> layout convert_color_params" where
  "sample_convert_color_defaults ip =
     \<lparr>inputs = [], outputs = [], input_color_format = 0, output_color_format = 0, mem_type = 0\<rparr>"

definition sample_nms_node :: "bool \<Rightarrow> bool \<Rightarrow> non_max_suppression_node" where
  "sample_nms_node second third =
     \<lparr>node_id = ''nms'', inputs_count = 2,
      input_scores_layout = sample_layout bfyx 1 1,
      node_has_num_select_per_class = False, num_select_per_class_layout = sample_layout bfyx 2 2,
      node_has_iou_threshold = False, iou_threshold_layout = sample_layout bfyx 3 3,
      node_has_score_threshold = False, score_threshold_layout = sample_layout bfyx 4 4,
      node_has_soft_nms_sigma = False, soft_nms_sigma_layout = sample_layout bfyx 5 5,
      node_has_second_output = second, second_output_layout = sample_layout bfyx 6 6,
      node_has_third_output = third, third_output_layout = sample_layout bfyx 7 7,
      prim_sort_result_descending = True, prim_center_point_box = False\<rparr>"

definition sample_nms_defaults :: "non_max_suppression_node \<Rightarrow> layout non_max_suppression_params" where
  "sample_nms_defaults arg =
     \<lparr>inputs = [], outputs = [],
      has_num_select_per_class = False, has_iou_threshold = False,
      has_score_threshold = False, has_soft_nms_sigma = False,
      has_second_output = False, has_third_output = False,
      sort_result_descending = False, box_encoding = BOX_ENCODING_CORNER\<rparr>"

definition select_short :: "'p \<Rightarrow> 'o \<Rightarrow> kernel_data list" where
  "select_short p opt = [sample_kd2]"

definition sample_space_to_batch_node :: space_to_batch_node where
  "sample_space_to_batch_node =
     \<lparr>node_id = ''s2b'', inputs_count = 1,
      prim_block_shape = \<lparr>spatial = (\<lambda>_. 2)\<rparr>,
      prim_pads_begin = \<lparr>spatial = (\<lambda>_. 0)\<rparr>,
      prim_pads_end = \<lparr>spatial = (\<lambda>_. 0)\<rparr>\<rparr>"

definition sample_space_to_batch_defaults ::
  "kernel_impl_params \<Rightarrow> (layout, int list) space_to_batch_params" where
  "sample_space_to_batch_defaults ip =
     \<lparr>inputs = [], outputs = [], block_shape = [], pads_begin = [], pads_end = []\<rparr>"

definition sample_convert_dim_vector :: "tensor \<Rightarrow> int list" where
  "sample_convert_dim_vector t = [spatial t 0, spatial t 1]"

definition sample_store :: "concatenation_impl list" where
  "sample_store =
     [\<lparr>impl_kernel_data = sample_kd1, impl_can_be_optimized = False\<rparr>,
      \<lparr>impl_kernel_data = sample_kd2, impl_can_be_optimized = True\<rparr>]"

definition sample_activation_store :: "activation_impl list" where
  "sample_activation_store =
     [\<lparr>impl_kernel_data = sample_kd1, impl_is_parameterized = True\<rparr>]"

section \<open>Properties of the format descriptors\<close>

lemma format_type_names_positions:
  "length format_type_names = nat format_num"
  "format_type_names ! nat bfyx = ''bfyx''"
  "format_type_names ! nat bfzyx = ''bfzyx''"
  "format_type_names ! nat bfwzyx = ''bfwzyx''"
  "format_type_names ! nat oiyx = ''oiyx''"
  "format_type_names ! nat oizyx = ''oizyx''"
  "format_type_names ! nat goiyx = ''goiyx''"
  "format_type_names ! nat goizyx = ''goizyx''"
  by (simp_all add: format_type_names_def format_num_def bfyx_def bfzyx_def bfwzyx_def
      oiyx_def oizyx_def goiyx_def goizyx_def)

lemma find_first_of_None: "find_first_of s c = None \<longleftrightarrow> c \<notin> set s"
  by (induction s) auto

lemma find_first_of_Some:
  "find_first_of s c = Some i \<Longrightarrow> i < length s \<and> s ! i = c \<and> (\<forall>j<i. s ! j \<noteq> c)"
proof (induction s arbitrary: i)
  case Nil
  then show ?case by simp
next
  case (Cons x xs)
  show ?case
  proof (cases "x = c")
    case True
    with Cons.prems show ?thesis by simp
  next
    case False
    with Cons.prems obtain k where k: "find_first_of xs c = Some k" "i = Suc k"
      by auto
    from Cons.IH [OF k(1)] False k(2) show ?thesis
      by (auto simp: nth_Cons split: nat.splits)
  qed
qed

text \<open>
  Claim C5. \<open>get_default_format\<close> returns \<open>bfyx\<close> for rank 4 data, \<open>bfzyx\<close> for rank 5
  data, \<open>bfwzyx\<close> for rank 6 data, \<open>goiyx\<close> and \<open>goizyx\<close> for grouped weights of rank 5
  and 6, and \<open>oiyx\<close> and \<open>oizyx\<close> for non-grouped weights of rank 4 and 5.
\<close>

theorem get_default_format_table:
  "get_default_format 4 False False = bfyx \<and>
   get_default_format 5 False False = bfzyx \<and>
   get_default_format 6 False False = bfwzyx \<and>
   get_default_format 5 True True = goiyx \<and>
   get_default_format 6 True True = goizyx \<and>
   get_default_format 4 True False = oiyx \<and>
   get_default_format 5 True False = oizyx"
  by (simp add: get_default_format_def)

text \<open>
  Claim C10, as stated: every combination outside the seven rows of the table of C5
  yields \<open>bfyx\<close>. It fails at rank 5 data with \<open>is_grouped\<close> set, which is none of the
  seven rows and yields \<open>bfzyx\<close>: the data branch does not consult \<open>is_grouped\<close>.
\<close>

theorem get_default_format_fallback_counterexample:
  "(5, False, True) \<notin> set [(4 :: nat, False, False), (5, False, False), (6, False, False),
        (5, True, True), (6, True, True), (4, True, False), (5, True, False)]
   \<and> get_default_format 5 False True = bfzyx
   \<and> get_default_format 5 False True \<noteq> bfyx"
  by (simp add: get_default_format_def bfzyx_def bfyx_def)

text \<open>
  Claim C10, amended. \<open>get_default_format\<close> is total, and it returns \<open>bfyx\<close> for every
  combination that is neither data of rank 5 or 6 (whatever \<open>is_grouped\<close> is), nor
  grouped weights of rank 5 or 6, nor non-grouped weights of rank 4 or 5: for instance
  rank 7 data, rank 4 grouped weights and rank 3 of any kind. Data of rank 5 returns
  \<open>bfzyx\<close> and data of rank 6 returns \<open>bfwzyx\<close> with either value of \<open>is_grouped\<close>.
\<close>

theorem get_default_format_fallback:
  "(\<not> (\<not> is_weights \<and> (rank = 5 \<or> rank = 6))
      \<and> \<not> (is_weights \<and> is_grouped_arg \<and> (rank = 5 \<or> rank = 6))
      \<and> \<not> (is_weights \<and> \<not> is_grouped_arg \<and> (rank = 4 \<or> rank = 5))
      \<longrightarrow> get_default_format rank is_weights is_grouped_arg = bfyx)
   \<and> get_default_format 5 False g = bfzyx
   \<and> get_default_format 6 False g = bfwzyx"
  by (auto simp add: get_default_format_def)

theorem get_default_format_fallback_witness:
  "get_default_format 7 False False = bfyx
   \<and> get_default_format 4 True True = bfyx
   \<and> get_default_format 3 False False = bfyx
   \<and> get_default_format 3 True False = bfyx
   \<and> get_default_format 3 True True = bfyx
   \<and> get_default_format 5 False True = bfzyx
   \<and> get_default_format 6 False True = bfwzyx"
  using get_default_format_fallback [of False 7 False True]
    get_default_format_fallback [of True 4 True True]
    get_default_format_fallback [of False 3 False True]
    get_default_format_fallback [of True 3 False True]
    get_default_format_fallback [of True 3 True True]
  by simp

text \<open>
  Claim C7. Where \<open>internal_order[idx]\<close> is a character \<open>c\<close>,
  \<open>internal_to_external idx\<close> fails with the invalid-argument error exactly when \<open>c\<close>
  does not occur in \<open>order\<close>, and otherwise returns the position of the first occurrence
  of \<open>c\<close> in \<open>order\<close>.
\<close>

theorem internal_to_external_spec:
  assumes "string_at (internal_order (traits fmt)) idx = Some c"
  shows "(internal_to_external traits fmt idx = Inl Invalid_argument
            \<longleftrightarrow> c \<notin> set (order (traits fmt)))
    \<and> (c \<in> set (order (traits fmt)) \<longrightarrow>
        (\<exists>i. internal_to_external traits fmt idx = Inr i
            \<and> i < length (order (traits fmt))
            \<and> order (traits fmt) ! i = c
            \<and> (\<forall>j<i. order (traits fmt) ! j \<noteq> c)))"
proof (cases "find_first_of (order (traits fmt)) c")
  case None
  with assms show ?thesis
    by (simp add: internal_to_external_def find_first_of_None [symmetric])
next
  case (Some i)
  then have "c \<in> set (order (traits fmt))"
    using find_first_of_None [of "order (traits fmt)" c] by simp
  with Some assms find_first_of_Some [OF Some] show ?thesis
    by (simp add: internal_to_external_def)
qed

theorem internal_to_external_spec_witness:
  "string_at (internal_order (sample_traits bfyx)) 2 = Some CHR ''x''
   \<and> CHR ''x'' \<in> set (order (sample_traits bfyx))
   \<and> internal_to_external sample_traits bfyx 2 = Inr 3
   \<and> string_at (internal_order (sample_traits bfyx)) 4 = Some CHR ''?''
   \<and> CHR ''?'' \<notin> set (order (sample_traits bfyx))
   \<and> internal_to_external sample_traits bfyx 4 = Inl Invalid_argument"
proof -
  have h1: "string_at (internal_order (sample_traits bfyx)) 2 = Some CHR ''x''"
    by (simp add: string_at_def sample_traits_def)
  have h2: "string_at (internal_order (sample_traits bfyx)) 4 = Some CHR ''?''"
    by (simp add: string_at_def sample_traits_def)
  have o: "order (sample_traits bfyx) = ''bfyx''"
    by (simp add: sample_traits_def)
  from internal_to_external_spec [of sample_traits bfyx 2 "CHR ''x''", OF h1]
  obtain i where i: "internal_to_external sample_traits bfyx 2 = Inr i"
      "order (sample_traits bfyx) ! i = CHR ''x''" "i < length (order (sample_traits bfyx))"
    by (auto simp: o)
  from i(2,3) have "i = 3"
    by (auto simp: o nth_Cons less_Suc_eq split: nat.splits)
  with i(1) h1 h2 internal_to_external_spec [of sample_traits bfyx 4 "CHR ''?''", OF h2] show ?thesis
    by (simp add: o)
qed

text \<open>
  A criterion on one descriptor: when neither \<open>order\<close> nor \<open>internal_order\<close> repeats a
  character and both have the same characters, \<open>internal_to_external\<close> succeeds at every
  index of \<open>internal_order\<close> and is a bijection onto the indices of \<open>order\<close>. Whether
  the entries of the table behind \<^verbatim>\<open>format::traits\<close> meet the criterion cannot be read
  from the sources at hand.
\<close>

lemma internal_to_external_bijection:
  assumes d1: "distinct (internal_order (traits fmt))"
    and d2: "distinct (order (traits fmt))"
    and st: "set (internal_order (traits fmt)) = set (order (traits fmt))"
  shows "\<exists>g. (\<forall>i < length (internal_order (traits fmt)). internal_to_external traits fmt i = Inr (g i))
    \<and> bij_betw g {..< length (internal_order (traits fmt))} {..< dimension traits fmt}"
proof -
  let ?io = "internal_order (traits fmt)" and ?ord = "order (traits fmt)"
  let ?g = "\<lambda>i. the (find_first_of ?ord (?io ! i))"
  have len: "length ?io = length ?ord"
    using d1 d2 st by (metis distinct_card)
  have k: "find_first_of ?ord (?io ! i) = Some (?g i) \<and> ?g i < length ?ord \<and> ?ord ! ?g i = ?io ! i"
    if "i < length ?io" for i
  proof -
    from that st have "?io ! i \<in> set ?ord" by (metis nth_mem)
    then obtain j where j: "find_first_of ?ord (?io ! i) = Some j"
      using find_first_of_None [of ?ord "?io ! i"] by auto
    with find_first_of_Some [OF j] show ?thesis by simp
  qed
  have val: "internal_to_external traits fmt i = Inr (?g i)" if "i < length ?io" for i
  proof -
    from k [OF that] obtain j where j: "find_first_of ?ord (?io ! i) = Some j"
      by blast
    with that show ?thesis
      by (simp add: internal_to_external_def string_at_def)
  qed
  have inj: "inj_on ?g {..< length ?io}"
  proof (rule inj_onI)
    fix i j assume i: "i \<in> {..< length ?io}" and j: "j \<in> {..< length ?io}" and e: "?g i = ?g j"
    from i j k [of i] k [of j] e have "?io ! i = ?io ! j" by (metis lessThan_iff)
    with d1 i j show "i = j" by (simp add: nth_eq_iff_index_eq)
  qed
  have sub: "?g ` {..< length ?io} \<subseteq> {..< length ?ord}"
    using k by auto
  have "card (?g ` {..< length ?io}) = length ?io"
    using inj by (simp add: card_image)
  with sub len have "?g ` {..< length ?io} = {..< length ?ord}"
    by (intro card_subset_eq) simp_all
  with inj have b: "bij_betw ?g {..< length ?io} {..< dimension traits fmt}"
    by (simp add: bij_betw_def dimension_def)
  show ?thesis
  proof (rule exI [where x = ?g], intro conjI allI impI)
    fix i assume "i < length ?io"
    then show "internal_to_external traits fmt i = Inr (?g i)" by (rule val)
  next
    show "bij_betw ?g {..< length ?io} {..< dimension traits fmt}" by (rule b)
  qed
qed

section \<open>Properties of the axis conversion\<close>

lemma mod_64_32: "(x mod 2 ^ 64 + y) mod 2 ^ 64 mod 2 ^ 32 = (x + y) mod (2 ^ 32 :: int)"
proof -
  have "(x mod 2 ^ 64 + y) mod 2 ^ 64 = (x + y) mod (2 ^ 64 :: int)"
    by (simp add: mod_add_left_eq)
  moreover have "(x + y) mod 2 ^ 64 mod 2 ^ 32 = (x + y) mod (2 ^ 32 :: int)"
    by (rule mod_mod_cancel) simp
  ultimately show ?thesis by simp
qed

lemma normalized_axis_negative:
  assumes "sint ax < 0" "0 \<le> sint ax + uint rank" "uint rank \<le> 2 ^ 32"
  shows "uint (normalized_axis ax rank) = sint ax + uint rank"
proof -
  have n: "normalized_axis ax rank = ucast (ax + rank)"
    using assms(1) by (simp add: normalized_axis_def)
  have c: "uint (ucast (ax + rank) :: 32 word) = uint (ax + rank) mod 2 ^ 32"
    by (simp add: unsigned_ucast_eq take_bit_eq_mod)
  have p: "uint (ax + rank) = (uint ax + uint rank) mod 2 ^ 64"
    by (simp add: uint_word_ariths)
  have u: "uint ax = sint ax mod 2 ^ 64"
    by (simp add: uint_sint take_bit_eq_mod)
  have "uint (normalized_axis ax rank)
          = (sint ax mod 2 ^ 64 + uint rank) mod 2 ^ 64 mod 2 ^ 32"
    by (simp only: n c p u)
  also have "\<dots> = (sint ax + uint rank) mod 2 ^ 32"
    by (rule mod_64_32)
  also have "\<dots> = sint ax + uint rank"
    using assms by simp
  finally show ?thesis .
qed

lemma uint_ucast_word_of_int:
  "0 \<le> k \<Longrightarrow> k < 2 ^ 32 \<Longrightarrow> uint (ucast (word_of_int k :: 64 word) :: 32 word) = k"
  by (simp add: unsigned_ucast_eq take_bit_eq_mod uint_word_of_int)

lemma reverse_spatial_uint:
  assumes "2 \<le> uint n" "uint n < uint rank" "uint rank \<le> 2 ^ 32"
  shows "uint (reverse_spatial n rank) = max (uint rank) 4 + 1 - uint n"
proof -
  let ?M = "max (uint rank) 4"
  have n2: "2 \<le> n" using assms(1) by (simp add: word_le_def)
  have sa: "uint (n - 2) = uint n - 2" using assms(1) by (simp add: uint_sub_if')
  have usa: "uint (ucast (n - 2) :: 64 word) = uint n - 2"
    using sa assms(1) uint_lt2p [of n] by (simp add: unsigned_ucast_eq take_bit_eq_mod)
  have m: "uint (max rank 4) = ?M" by (simp add: max_def word_le_def)
  have r: "max rank 4 - 2 - ucast (n - 2) - 1 + 2
             = (word_of_int (?M + 1 - uint n) :: 64 word)"
  proof -
    have "max rank 4 - 2 - ucast (n - 2) - 1 + 2
            = word_of_int (uint (max rank 4)) - 2
                - word_of_int (uint (ucast (n - 2) :: 64 word)) - 1 + (2 :: 64 word)"
      by simp
    also have "\<dots> = word_of_int (?M - 2 - (uint n - 2) - 1 + 2)"
      unfolding m usa by simp
    also have "?M - 2 - (uint n - 2) - 1 + 2 = ?M + 1 - uint n" by simp
    finally show ?thesis .
  qed
  have b: "0 \<le> ?M + 1 - uint n" "?M + 1 - uint n < 2 ^ 32" using assms by auto
  have "reverse_spatial n rank = ucast (max rank 4 - 2 - ucast (n - 2) - 1 + 2)"
    using n2 by (simp only: reverse_spatial_def Let_def if_True)
  then have "uint (reverse_spatial n rank)
               = uint (ucast (word_of_int (?M + 1 - uint n) :: 64 word) :: 32 word)"
    by (simp only: r)
  also have "\<dots> = ?M + 1 - uint n"
    using b by (rule uint_ucast_word_of_int)
  finally show ?thesis .
qed

lemma normalized_axis_nonnegative:
  assumes "0 \<le> sint ax" "sint ax < 2 ^ 32"
  shows "uint (normalized_axis ax rank) = sint ax"
proof -
  have u: "uint ax = sint ax mod 2 ^ 64"
    by (simp add: uint_sint take_bit_eq_mod)
  have "uint (normalized_axis ax rank) = uint ax mod 2 ^ 32"
    using assms(1) by (simp add: normalized_axis_def unsigned_ucast_eq take_bit_eq_mod)
  also have "\<dots> = sint ax mod 2 ^ 64 mod 2 ^ 32"
    by (simp only: u)
  also have "\<dots> = sint ax"
    using assms by simp
  finally show ?thesis .
qed

lemma axis_switch_uint:
  "axis_switch ax w =
     (if uint w = 0 then Inr BATCH
      else if uint w = 1 then Inr FEATURE
      else if uint w = 2 then Inr X
      else if uint w = 3 then Inr Y
      else if uint w = 4 then Inr Z
      else if uint w = 5 then Inr W
      else Inl (Unsupported_axis ax))"
proof -
  have e: "w = v \<longleftrightarrow> uint w = uint v" for v :: "32 word"
    by (simp add: word_uint_eq_iff)
  show ?thesis
    unfolding axis_switch_def e [of 0] e [of 1] e [of 2] e [of 3] e [of 4] e [of 5]
    by simp
qed

text \<open>
  What \<open>convert_axis\<close> does on an axis that fits in 32 bits. Let \<open>n\<close> be the axis when
  it is not negative and the axis plus the rank otherwise, with \<open>n\<close> not negative, the
  axis below \<open>2\<^sup>3\<^sup>2\<close> and the rank at most \<open>2\<^sup>3\<^sup>2\<close>. The conversion fails when
  \<open>n \<ge> rank\<close>, gives \<open>BATCH\<close> for \<open>n = 0\<close> and \<open>FEATURE\<close> for \<open>n = 1\<close>, and sends
  a spatial \<open>n\<close> to position \<open>max rank 4 + 1 - n\<close> of \<open>X, Y, Z, W\<close> (positions 2 to 5),
  failing with the unsupported-axis error beyond \<open>W\<close>.
\<close>

lemma convert_axis_in_range:
  fixes ax rank :: "64 word"
  defines "n \<equiv> (if 0 \<le> sint ax then sint ax else sint ax + uint rank)"
  assumes n0: "0 \<le> n" and a32: "sint ax < 2 ^ 32" and r32: "uint rank \<le> 2 ^ 32"
  shows "convert_axis ax rank =
     (if uint rank \<le> n then Inl Axis_exceeds_dimensions
      else if n = 0 then Inr BATCH
      else if n = 1 then Inr FEATURE
      else if max (uint rank) 4 + 1 - n = 2 then Inr X
      else if max (uint rank) 4 + 1 - n = 3 then Inr Y
      else if max (uint rank) 4 + 1 - n = 4 then Inr Z
      else if max (uint rank) 4 + 1 - n = 5 then Inr W
      else Inl (Unsupported_axis ax))"
proof -
  let ?N = "normalized_axis ax rank"
  have un: "uint ?N = n"
  proof (cases "0 \<le> sint ax")
    case True
    with a32 show ?thesis
      by (simp add: n_def normalized_axis_nonnegative)
  next
    case False
    with n0 r32 show ?thesis
      by (simp add: n_def normalized_axis_negative)
  qed
  have uc: "uint (ucast ?N :: 64 word) = n"
    using un uint_lt2p [of ?N] n0 by (simp add: unsigned_ucast_eq take_bit_eq_mod)
  have cmp: "rank \<le> ucast ?N \<longleftrightarrow> uint rank \<le> n"
    by (simp add: word_le_def uc)
  show ?thesis
  proof (cases "uint rank \<le> n")
    case True
    then show ?thesis
      by (simp add: convert_axis_def Let_def cmp)
  next
    case False
    then have lt: "n < uint rank" by simp
    have c: "convert_axis ax rank = axis_switch ax (reverse_spatial ?N rank)"
      using False by (simp add: convert_axis_def Let_def cmp)
    show ?thesis
    proof (cases "2 \<le> n")
      case True
      have "uint (reverse_spatial ?N rank) = max (uint rank) 4 + 1 - uint ?N"
        using True lt r32 by (intro reverse_spatial_uint) (simp_all add: un)
      then have r: "uint (reverse_spatial ?N rank) = max (uint rank) 4 + 1 - n"
        by (simp add: un)
      have "2 \<le> max (uint rank) 4 + 1 - n"
        using lt by simp
      with True False show ?thesis
        by (simp add: c axis_switch_uint r)
    next
      case False
      then have "\<not> 2 \<le> ?N"
        by (simp add: word_le_def un)
      then have "reverse_spatial ?N rank = ?N"
        by (simp add: reverse_spatial_def)
      with False n0 lt show ?thesis
        by (auto simp add: c axis_switch_uint un)
    qed
  qed
qed

text \<open>
  Claim C3. The conversion should fail whenever the normalized axis is at least the
  rank. The axis is a 64-bit integer and the code stores the normalized axis in an
  \<^verbatim>\<open>unsigned\<close> before the range check, which keeps its low 32 bits only. For rank 4, the
  axis \<open>2\<^sup>3\<^sup>2\<close> is not negative and not below the rank, yet it is stored as 0 and the
  conversion returns \<open>BATCH\<close>; the axis \<open>2\<^sup>3\<^sup>2 + 3\<close> returns \<open>X\<close>. On an axis that fits
  in 32 bits the code does what the claim says: \<open>-1\<close> gives \<open>X\<close>, 0 gives \<open>BATCH\<close>,
  1 gives \<open>FEATURE\<close>, 2 gives \<open>Y\<close>, and 4 fails.
\<close>

theorem convert_axis_narrows_wide_axis:
  "0 \<le> sint (4294967296 :: 64 word)
   \<and> uint (4 :: 64 word) \<le> sint (4294967296 :: 64 word)
   \<and> convert_axis 4294967296 4 = Inr BATCH
   \<and> uint (4 :: 64 word) \<le> sint (4294967299 :: 64 word)
   \<and> convert_axis 4294967299 4 = Inr X
   \<and> convert_axis (- 1) 4 = Inr X
   \<and> convert_axis 0 4 = Inr BATCH
   \<and> convert_axis 1 4 = Inr FEATURE
   \<and> convert_axis 2 4 = Inr Y
   \<and> convert_axis 4 4 = Inl Axis_exceeds_dimensions"
  by code_simp

section \<open>Properties of the convolution weights layout\<close>

text \<open>
  Claim C4, as stated: grouped weights are given the default format only when, besides
  the ranks being equal, the spatial extents show the pattern \<open>spatial[0] = 1\<close>,
  \<open>spatial[1] \<noteq> 1\<close>, and keep their format otherwise. It fails for grouped \<open>oiyx\<close>
  weights of rank 4 with a 3 by 3 kernel and an input of rank 4: the pattern is absent
  and the format still becomes \<open>goiyx\<close>.
\<close>

theorem convolution_weights_layout_counterexample:
  "\<not> (spatial (get_tensor (sample_layout oiyx 3 3)) 0 = 1
        \<and> spatial (get_tensor (sample_layout oiyx 3 3)) 1 \<noteq> 1)
   \<and> format (convolution_weights_layout sample_traits (\<lambda>_. 4) True
               (sample_layout bfyx 8 8) (sample_layout oiyx 3 3)) = goiyx
   \<and> format (convolution_weights_layout sample_traits (\<lambda>_. 4) True
               (sample_layout bfyx 8 8) (sample_layout oiyx 3 3))
       \<noteq> format (sample_layout oiyx 3 3)"
  by (simp add: convolution_weights_layout_def Let_def is_grouped_def get_default_format_def
      goiyx_def oiyx_def sample_layout_def sample_traits_def)

text \<open>
  Claim C4, amended. Weights are grouped when their format is grouped or the primitive
  says so. Grouped weights whose rank equals the input's rank are given the format
  \<open>get_default_format (rank + 1) True True\<close>, whatever their spatial extents; their
  first two spatial extents are swapped as well exactly when \<open>spatial[0] = 1\<close> and
  \<open>spatial[1] \<noteq> 1\<close>. In every other case the weights layout is unchanged.
\<close>

theorem convolution_weights_layout_spec:
  "(let grouped_weights = (is_grouped traits (format weights_layout) \<or> grouped_weights_shape);
        t = get_tensor weights_layout;
        swapped = set_tensor (swap_spatial_0_1 t) weights_layout;
        result = convolution_weights_layout traits get_rank grouped_weights_shape
                   input_layout weights_layout
    in (grouped_weights \<and> get_rank input_layout = get_rank weights_layout
          \<and> spatial t 0 = 1 \<and> spatial t 1 \<noteq> 1 \<longrightarrow>
            result = swapped\<lparr>format := get_default_format (get_rank swapped + 1) True True\<rparr>)
     \<and> (grouped_weights \<and> get_rank input_layout = get_rank weights_layout
          \<and> \<not> (spatial t 0 = 1 \<and> spatial t 1 \<noteq> 1) \<longrightarrow>
            result = weights_layout
              \<lparr>format := get_default_format (get_rank weights_layout + 1) True True\<rparr>)
     \<and> (\<not> (grouped_weights \<and> get_rank input_layout = get_rank weights_layout) \<longrightarrow>
            result = weights_layout))"
  by (auto simp add: convolution_weights_layout_def Let_def)

theorem convolution_weights_layout_spec_witness:
  "convolution_weights_layout sample_traits (\<lambda>_. 4) True
       (sample_layout bfyx 8 8) (sample_layout oiyx 1 3)
     = sample_layout goiyx 3 1
   \<and> convolution_weights_layout sample_traits (\<lambda>_. 4) True
       (sample_layout bfyx 8 8) (sample_layout oiyx 3 3)
     = sample_layout goiyx 3 3
   \<and> convolution_weights_layout sample_traits (\<lambda>_. 4) False
       (sample_layout bfyx 8 8) (sample_layout oiyx 1 3)
     = sample_layout oiyx 1 3
   \<and> convolution_weights_layout sample_traits (\<lambda>l. if format l = oiyx then 4 else 5) True
       (sample_layout bfzyx 8 8) (sample_layout oiyx 1 3)
     = sample_layout oiyx 1 3"
proof -
  have g: "get_default_format 5 True True = goiyx"
    by (simp add: get_default_format_def)
  have sw: "swap_spatial_0_1 (get_tensor (sample_layout oiyx 1 3)) = get_tensor (sample_layout oiyx 3 1)"
    by (simp add: swap_spatial_0_1_def sample_layout_def fun_eq_iff)
  have ng: "\<not> is_grouped sample_traits fmt" for fmt
    by (simp add: is_grouped_def sample_traits_def)
  have sp: "spatial (get_tensor (sample_layout fmt s0 s1)) 0 = s0"
      "spatial (get_tensor (sample_layout fmt s0 s1)) (Suc 0) = s1" for fmt s0 s1
    by (simp_all add: sample_layout_def)
  have fm: "format (sample_layout fmt s0 s1) = fmt" for fmt s0 s1
    by (simp add: sample_layout_def)
  have st: "(set_tensor (get_tensor (sample_layout oiyx 3 1)) (sample_layout oiyx 1 3))\<lparr>format := goiyx\<rparr>
              = sample_layout goiyx 3 1"
    by (simp add: set_tensor_def sample_layout_def)
  have fu: "(sample_layout oiyx 3 3)\<lparr>format := goiyx\<rparr> = sample_layout goiyx 3 3"
    by (simp add: sample_layout_def)
  have ne: "bfzyx \<noteq> oiyx" by (simp add: oiyx_def bfzyx_def)
  have c1: "convolution_weights_layout sample_traits (\<lambda>_. 4) True
       (sample_layout bfyx 8 8) (sample_layout oiyx 1 3) = sample_layout goiyx 3 1"
    using convolution_weights_layout_spec
        [of sample_traits "sample_layout oiyx 1 3" True "\<lambda>_. 4" "sample_layout bfyx 8 8"]
    by (simp add: Let_def g sw sp st)
  have c2: "convolution_weights_layout sample_traits (\<lambda>_. 4) True
       (sample_layout bfyx 8 8) (sample_layout oiyx 3 3) = sample_layout goiyx 3 3"
    using convolution_weights_layout_spec
        [of sample_traits "sample_layout oiyx 3 3" True "\<lambda>_. 4" "sample_layout bfyx 8 8"]
    by (simp add: Let_def g sp fu)
  have c3: "convolution_weights_layout sample_traits (\<lambda>_. 4) False
       (sample_layout bfyx 8 8) (sample_layout oiyx 1 3) = sample_layout oiyx 1 3"
    using convolution_weights_layout_spec
        [of sample_traits "sample_layout oiyx 1 3" False "\<lambda>_. 4" "sample_layout bfyx 8 8"]
    by (simp add: Let_def ng)
  have c4: "convolution_weights_layout sample_traits (\<lambda>l. if format l = oiyx then 4 else 5) True
       (sample_layout bfzyx 8 8) (sample_layout oiyx 1 3) = sample_layout oiyx 1 3"
    using convolution_weights_layout_spec
        [of sample_traits "sample_layout oiyx 1 3" True "\<lambda>l. if format l = oiyx then 4 else 5"
          "sample_layout bfzyx 8 8"]
    by (simp add: Let_def fm ne)
  from c1 c2 c3 c4 show ?thesis by simp
qed

section \<open>Properties of implementation creation\<close>

lemma read_at_in_range:
  "(\<And>i. i \<in> set is \<Longrightarrow> i < length xs) \<Longrightarrow> read_at xs is = Inr (map ((!) xs) is)"
  by (induction "is") simp_all

lemma read_at_upt: "n \<le> length xs \<Longrightarrow> read_at xs [m ..< n] = Inr (map ((!) xs) [m ..< n])"
  by (rule read_at_in_range) simp

lemma quantize_create_selection:
  "inputs_count arg \<le> length (input_layouts ip) \<Longrightarrow>
   \<exists>p. fst (quantize_impl_create gdp opt cdt sel arg ip) = [(p, opt)]
     \<and> (sel p opt = [] \<longrightarrow>
          snd (quantize_impl_create gdp opt cdt sel arg ip)
            = Inl (Cldnn_error (node_id arg) no_proper_kernel))
     \<and> (sel p opt \<noteq> [] \<longrightarrow>
          snd (quantize_impl_create gdp opt cdt sel arg ip)
            = Inr \<lparr>impl_kernel_data = sel p opt ! 0\<rparr>)"
  by (auto simp: quantize_impl_create_def Let_def CLDNN_ERROR_BOOL_def read_at_upt
      typed_primitive_impl_ocl_ctor_def)

lemma concatenation_impl_ctor_eq:
  "concatenation_impl_ctor arg kd =
     (if \<not> can_be_optimized arg \<and> inputs_count arg \<noteq> length (kernels kd)
      then Inl (Cldnn_error (node_id arg) ''Error - not enough kernels for concatenation'')
      else Inr \<lparr>impl_kernel_data = kd, impl_can_be_optimized = can_be_optimized arg\<rparr>)"
  by (simp add: concatenation_impl_ctor_def CLDNN_ERROR_NOT_EQUAL_def
      concatenation_impl_set_node_params_def typed_primitive_impl_ocl_ctor_def
      typed_primitive_impl_ocl.extend_def concatenation_impl.fields_def)

lemma activation_impl_ctor_eq:
  "activation_impl_ctor arg kd
     = Inr \<lparr>impl_kernel_data = kd, impl_is_parameterized = is_parameterized arg\<rparr>"
  by (simp add: activation_impl_ctor_def activation_impl_set_node_params_def
      typed_primitive_impl_ocl_ctor_def typed_primitive_impl_ocl.extend_def
      activation_impl.fields_def)

lemma concatenation_create_selection:
  "\<not> can_be_optimized arg \<Longrightarrow> inputs_count arg \<le> length (input_layouts ip) \<Longrightarrow>
   convert_axis (prim_axis arg) (get_rank (output_layout ip)) = Inr a \<Longrightarrow>
   \<exists>p. fst (concatenation_impl_create gdp opt cdt get_rank sel arg ip)
           = [(p, opt\<lparr>kernelPerInput := True\<rparr>)]
     \<and> (sel p (opt\<lparr>kernelPerInput := True\<rparr>) = [] \<longrightarrow>
          snd (concatenation_impl_create gdp opt cdt get_rank sel arg ip)
            = Inl (Cldnn_error (node_id arg) no_proper_kernel))
     \<and> (sel p (opt\<lparr>kernelPerInput := True\<rparr>) \<noteq> []
          \<and> inputs_count arg = length (kernels (sel p (opt\<lparr>kernelPerInput := True\<rparr>) ! 0)) \<longrightarrow>
          snd (concatenation_impl_create gdp opt cdt get_rank sel arg ip)
            = Inr \<lparr>impl_kernel_data = sel p (opt\<lparr>kernelPerInput := True\<rparr>) ! 0,
                   impl_can_be_optimized = False\<rparr>)
     \<and> (sel p (opt\<lparr>kernelPerInput := True\<rparr>) \<noteq> []
          \<and> inputs_count arg \<noteq> length (kernels (sel p (opt\<lparr>kernelPerInput := True\<rparr>) ! 0)) \<longrightarrow>
          snd (concatenation_impl_create gdp opt cdt get_rank sel arg ip)
            = Inl (Cldnn_error (node_id arg) ''Error - not enough kernels for concatenation''))"
  by (auto simp: concatenation_impl_create_def Let_def CLDNN_ERROR_BOOL_def read_at_upt
      concatenation_impl_ctor_eq)

lemma activation_create_selection:
  "\<not> is_parameterized arg
     \<or> (1 < length (input_layouts ip)
        \<and> cnaf arg (activations (gdp ip)) \<noteq> []
        \<and> \<not> cnt (input_layouts ip ! 1) < req (output_layout ip) (cnaf arg (activations (gdp ip)) ! 0)) \<Longrightarrow>
   \<exists>p. fst (activation_impl_create gdp opt cdt cnaf cnt req sel arg ip) = [(p, opt)]
     \<and> (sel p opt = [] \<longrightarrow>
          snd (activation_impl_create gdp opt cdt cnaf cnt req sel arg ip)
            = Inl (Cldnn_error (node_id arg) no_proper_kernel))
     \<and> (sel p opt \<noteq> [] \<longrightarrow>
          snd (activation_impl_create gdp opt cdt cnaf cnt req sel arg ip)
            = Inr \<lparr>impl_kernel_data = sel p opt ! 0,
                   impl_is_parameterized = is_parameterized arg\<rparr>)"
  by (auto simp: activation_impl_create_def Let_def CLDNN_ERROR_BOOL_def
      CLDNN_ERROR_LESS_THAN_def activation_impl_ctor_eq)

lemma extract_image_patches_create_selection:
  "\<exists>p. fst (extract_image_patches_impl_create gdp opt sel arg ip) = [(p, opt)]
     \<and> (sel p opt = [] \<longrightarrow>
          snd (extract_image_patches_impl_create gdp opt sel arg ip)
            = Inl (Cldnn_error (node_id arg) no_proper_kernel))
     \<and> (sel p opt \<noteq> [] \<longrightarrow>
          snd (extract_image_patches_impl_create gdp opt sel arg ip)
            = Inr \<lparr>impl_kernel_data = sel p opt ! 0\<rparr>)"
  by (auto simp: extract_image_patches_impl_create_def Let_def CLDNN_ERROR_BOOL_def
      typed_primitive_impl_ocl_ctor_def)

lemma convert_color_create_selection:
  "\<exists>p. fst (convert_color_impl_create gdp opt cdt sel arg ip) = [(p, opt)]
     \<and> (sel p opt = [] \<longrightarrow>
          snd (convert_color_impl_create gdp opt cdt sel arg ip)
            = Inl (Cldnn_error (node_id arg) no_proper_kernel))
     \<and> (sel p opt \<noteq> [] \<longrightarrow>
          snd (convert_color_impl_create gdp opt cdt sel arg ip)
            = Inr \<lparr>impl_kernel_data = sel p opt ! 0\<rparr>)"
  by (auto simp: convert_color_impl_create_def Let_def CLDNN_ERROR_BOOL_def
      typed_primitive_impl_ocl_ctor_def)

lemma space_to_batch_create_selection:
  "\<exists>p. fst (space_to_batch_impl_create gdp opt cdv sel arg ip) = [(p, opt)]
     \<and> (sel p opt = [] \<longrightarrow>
          snd (space_to_batch_impl_create gdp opt cdv sel arg ip)
            = Inl (Cldnn_error (node_id arg) no_proper_kernel))
     \<and> (sel p opt \<noteq> [] \<longrightarrow>
          snd (space_to_batch_impl_create gdp opt cdv sel arg ip)
            = Inr \<lparr>impl_kernel_data = sel p opt ! 0\<rparr>)"
  by (auto simp: space_to_batch_impl_create_def Let_def CLDNN_ERROR_BOOL_def
      typed_primitive_impl_ocl_ctor_def)

lemma non_max_suppression_create_selection:
  "\<exists>p. fst (non_max_suppression_gpu_create gdp opt cdt sel arg) = [(p, opt)]
     \<and> (sel p opt = [] \<longrightarrow>
          snd (non_max_suppression_gpu_create gdp opt cdt sel arg)
            = Inl (Cldnn_error (node_id arg) no_proper_kernel))
     \<and> (sel p opt \<noteq> [] \<longrightarrow>
          snd (non_max_suppression_gpu_create gdp opt cdt sel arg)
            = Inr \<lparr>impl_kernel_data = sel p opt ! 0\<rparr>)"
  by (auto simp: non_max_suppression_gpu_create_def Let_def CLDNN_ERROR_BOOL_def
      typed_primitive_impl_ocl_ctor_def)

text \<open>
  Claim C1, as stated: whenever the selector returns a list that is not empty, the
  implementation is constructed from the candidate at index 0. It fails for a
  concatenation node with two inputs that cannot be optimized out, when the selector
  returns one candidate that holds a single kernel: the selector is invoked once, its
  list is not empty, and \<^verbatim>\<open>create\<close> fails in the constructor, which compares the input
  count with the number of kernels of the candidate.
\<close>

theorem create_selects_first_candidate_counterexample:
  "fst (concatenation_impl_create sample_concatenation_defaults \<lparr>kernelPerInput = False\<rparr>
         (\<lambda>l. l) (\<lambda>l. 4) select_short (sample_concatenation_node False 1) sample_impl_param)
     = [(\<lparr>inputs = [sample_layout bfyx 4 4, sample_layout bfyx 4 4], outputs = [],
          axis = FEATURE\<rparr>, \<lparr>kernelPerInput = True\<rparr>)]
   \<and> select_short
        \<lparr>inputs = [sample_layout bfyx 4 4, sample_layout bfyx 4 4], outputs = [], axis = FEATURE\<rparr>
        \<lparr>kernelPerInput = True\<rparr> = [sample_kd2]
   \<and> [sample_kd2] \<noteq> []
   \<and> snd (concatenation_impl_create sample_concatenation_defaults \<lparr>kernelPerInput = False\<rparr>
         (\<lambda>l. l) (\<lambda>l. 4) select_short (sample_concatenation_node False 1) sample_impl_param)
     = Inl (Cldnn_error ''concat'' ''Error - not enough kernels for concatenation'')"
proof -
  have ax: "convert_axis 1 4 = Inr FEATURE"
    by code_simp
  have rd: "read_at [sample_layout bfyx 4 4, sample_layout bfyx 4 4] [0 ..< 2]
              = Inr [sample_layout bfyx 4 4, sample_layout bfyx 4 4]"
    by (simp add: read_at_upt upt_rec)
  show ?thesis
    by (simp add: concatenation_impl_create_def Let_def sample_concatenation_node_def
        sample_impl_param_def sample_concatenation_defaults_def select_short_def ax rd
        CLDNN_ERROR_BOOL_def concatenation_impl_ctor_eq sample_kd2_def)
qed

text \<open>
  Claim C1, amended. Each of the seven \<^verbatim>\<open>create\<close> functions (quantize, concatenation,
  activation, patch extraction, colour conversion, space to batch, non-max suppression)
  that gets as far as kernel selection invokes the selector once, on a parameter record
  \<open>p\<close>. Quantize gets there when the node's inputs are all among the input layouts;
  concatenation when the node cannot be optimized out, its inputs are all among the input
  layouts and its axis converts; activation when the node is not parameterized, or
  the slope layout and the first activation exist and the slope layout is not too
  small; the other four always. When the selector returns the empty list for \<open>p\<close>,
  \<^verbatim>\<open>create\<close> fails with the error that carries the node identifier and the message
  that no proper kernel was found, and returns no implementation. When the list is not
  empty, \<^verbatim>\<open>create\<close> returns the implementation that holds the candidate at index 0,
  except for concatenation: there it does so when the candidate has as many kernels as
  the node has inputs, and fails with the not-enough-kernels error otherwise.
\<close>

theorem create_selects_first_candidate:
  "(inputs_count arg_q \<le> length (input_layouts ip_q) \<longrightarrow>
     (\<exists>p. fst (quantize_impl_create gdp_q opt_q cdt_q sel_q arg_q ip_q) = [(p, opt_q)]
       \<and> (sel_q p opt_q = [] \<longrightarrow>
            snd (quantize_impl_create gdp_q opt_q cdt_q sel_q arg_q ip_q)
              = Inl (Cldnn_error (node_id arg_q) no_proper_kernel))
       \<and> (sel_q p opt_q \<noteq> [] \<longrightarrow>
            snd (quantize_impl_create gdp_q opt_q cdt_q sel_q arg_q ip_q)
              = Inr \<lparr>impl_kernel_data = sel_q p opt_q ! 0\<rparr>)))
   \<and> (\<not> can_be_optimized arg_c \<and> inputs_count arg_c \<le> length (input_layouts ip_c)
        \<and> convert_axis (prim_axis arg_c) (rank_c (output_layout ip_c)) = Inr a \<longrightarrow>
     (\<exists>p. fst (concatenation_impl_create gdp_c opt_c cdt_c rank_c sel_c arg_c ip_c)
             = [(p, opt_c\<lparr>kernelPerInput := True\<rparr>)]
       \<and> (sel_c p (opt_c\<lparr>kernelPerInput := True\<rparr>) = [] \<longrightarrow>
            snd (concatenation_impl_create gdp_c opt_c cdt_c rank_c sel_c arg_c ip_c)
              = Inl (Cldnn_error (node_id arg_c) no_proper_kernel))
       \<and> (sel_c p (opt_c\<lparr>kernelPerInput := True\<rparr>) \<noteq> []
            \<and> inputs_count arg_c
                = length (kernels (sel_c p (opt_c\<lparr>kernelPerInput := True\<rparr>) ! 0)) \<longrightarrow>
            snd (concatenation_impl_create gdp_c opt_c cdt_c rank_c sel_c arg_c ip_c)
              = Inr \<lparr>impl_kernel_data = sel_c p (opt_c\<lparr>kernelPerInput := True\<rparr>) ! 0,
                     impl_can_be_optimized = False\<rparr>)
       \<and> (sel_c p (opt_c\<lparr>kernelPerInput := True\<rparr>) \<noteq> []
            \<and> inputs_count arg_c
                \<noteq> length (kernels (sel_c p (opt_c\<lparr>kernelPerInput := True\<rparr>) ! 0)) \<longrightarrow>
            snd (concatenation_impl_create gdp_c opt_c cdt_c rank_c sel_c arg_c ip_c)
              = Inl (Cldnn_error (node_id arg_c)
                      ''Error - not enough kernels for concatenation''))))
   \<and> (\<not> is_parameterized arg_a
        \<or> (1 < length (input_layouts ip_a)
           \<and> cnaf_a arg_a (activations (gdp_a ip_a)) \<noteq> []
           \<and> \<not> cnt_a (input_layouts ip_a ! 1)
                 < req_a (output_layout ip_a) (cnaf_a arg_a (activations (gdp_a ip_a)) ! 0)) \<longrightarrow>
     (\<exists>p. fst (activation_impl_create gdp_a opt_a cdt_a cnaf_a cnt_a req_a sel_a arg_a ip_a)
             = [(p, opt_a)]
       \<and> (sel_a p opt_a = [] \<longrightarrow>
            snd (activation_impl_create gdp_a opt_a cdt_a cnaf_a cnt_a req_a sel_a arg_a ip_a)
              = Inl (Cldnn_error (node_id arg_a) no_proper_kernel))
       \<and> (sel_a p opt_a \<noteq> [] \<longrightarrow>
            snd (activation_impl_create gdp_a opt_a cdt_a cnaf_a cnt_a req_a sel_a arg_a ip_a)
              = Inr \<lparr>impl_kernel_data = sel_a p opt_a ! 0,
                     impl_is_parameterized = is_parameterized arg_a\<rparr>)))
   \<and> (\<exists>p. fst (extract_image_patches_impl_create gdp_e opt_e sel_e arg_e ip_e) = [(p, opt_e)]
       \<and> (sel_e p opt_e = [] \<longrightarrow>
            snd (extract_image_patches_impl_create gdp_e opt_e sel_e arg_e ip_e)
              = Inl (Cldnn_error (node_id arg_e) no_proper_kernel))
       \<and> (sel_e p opt_e \<noteq> [] \<longrightarrow>
            snd (extract_image_patches_impl_create gdp_e opt_e sel_e arg_e ip_e)
              = Inr \<lparr>impl_kernel_data = sel_e p opt_e ! 0\<rparr>))
   \<and> (\<exists>p. fst (convert_color_impl_create gdp_v opt_v cdt_v sel_v arg_v ip_v) = [(p, opt_v)]
       \<and> (sel_v p opt_v = [] \<longrightarrow>
            snd (convert_color_impl_create gdp_v opt_v cdt_v sel_v arg_v ip_v)
              = Inl (Cldnn_error (node_id arg_v) no_proper_kernel))
       \<and> (sel_v p opt_v \<noteq> [] \<longrightarrow>
            snd (convert_color_impl_create gdp_v opt_v cdt_v sel_v arg_v ip_v)
              = Inr \<lparr>impl_kernel_data = sel_v p opt_v ! 0\<rparr>))
   \<and> (\<exists>p. fst (space_to_batch_impl_create gdp_s opt_s cdv_s sel_s arg_s ip_s) = [(p, opt_s)]
       \<and> (sel_s p opt_s = [] \<longrightarrow>
            snd (space_to_batch_impl_create gdp_s opt_s cdv_s sel_s arg_s ip_s)
              = Inl (Cldnn_error (node_id arg_s) no_proper_kernel))
       \<and> (sel_s p opt_s \<noteq> [] \<longrightarrow>
            snd (space_to_batch_impl_create gdp_s opt_s cdv_s sel_s arg_s ip_s)
              = Inr \<lparr>impl_kernel_data = sel_s p opt_s ! 0\<rparr>))
   \<and> (\<exists>p. fst (non_max_suppression_gpu_create gdp_n opt_n cdt_n sel_n arg_n) = [(p, opt_n)]
       \<and> (sel_n p opt_n = [] \<longrightarrow>
            snd (non_max_suppression_gpu_create gdp_n opt_n cdt_n sel_n arg_n)
              = Inl (Cldnn_error (node_id arg_n) no_proper_kernel))
       \<and> (sel_n p opt_n \<noteq> [] \<longrightarrow>
            snd (non_max_suppression_gpu_create gdp_n opt_n cdt_n sel_n arg_n)
              = Inr \<lparr>impl_kernel_data = sel_n p opt_n ! 0\<rparr>))"
proof (intro conjI impI)
  assume "inputs_count arg_q \<le> length (input_layouts ip_q)"
  then show "\<exists>p. fst (quantize_impl_create gdp_q opt_q cdt_q sel_q arg_q ip_q) = [(p, opt_q)]
       \<and> (sel_q p opt_q = [] \<longrightarrow>
            snd (quantize_impl_create gdp_q opt_q cdt_q sel_q arg_q ip_q)
              = Inl (Cldnn_error (node_id arg_q) no_proper_kernel))
       \<and> (sel_q p opt_q \<noteq> [] \<longrightarrow>
            snd (quantize_impl_create gdp_q opt_q cdt_q sel_q arg_q ip_q)
              = Inr \<lparr>impl_kernel_data = sel_q p opt_q ! 0\<rparr>)"
    by (rule quantize_create_selection)
next
  assume "\<not> can_be_optimized arg_c \<and> inputs_count arg_c \<le> length (input_layouts ip_c)
        \<and> convert_axis (prim_axis arg_c) (rank_c (output_layout ip_c)) = Inr a"
  then show "\<exists>p. fst (concatenation_impl_create gdp_c opt_c cdt_c rank_c sel_c arg_c ip_c)
             = [(p, opt_c\<lparr>kernelPerInput := True\<rparr>)]
       \<and> (sel_c p (opt_c\<lparr>kernelPerInput := True\<rparr>) = [] \<longrightarrow>
            snd (concatenation_impl_create gdp_c opt_c cdt_c rank_c sel_c arg_c ip_c)
              = Inl (Cldnn_error (node_id arg_c) no_proper_kernel))
       \<and> (sel_c p (opt_c\<lparr>kernelPerInput := True\<rparr>) \<noteq> []
            \<and> inputs_count arg_c
                = length (kernels (sel_c p (opt_c\<lparr>kernelPerInput := True\<rparr>) ! 0)) \<longrightarrow>
            snd (concatenation_impl_create gdp_c opt_c cdt_c rank_c sel_c arg_c ip_c)
              = Inr \<lparr>impl_kernel_data = sel_c p (opt_c\<lparr>kernelPerInput := True\<rparr>) ! 0,
                     impl_can_be_optimized = False\<rparr>)
       \<and> (sel_c p (opt_c\<lparr>kernelPerInput := True\<rparr>) \<noteq> []
            \<and> inputs_count arg_c
                \<noteq> length (kernels (sel_c p (opt_c\<lparr>kernelPerInput := True\<rparr>) ! 0)) \<longrightarrow>
            snd (concatenation_impl_create gdp_c opt_c cdt_c rank_c sel_c arg_c ip_c)
              = Inl (Cldnn_error (node_id arg_c)
                      ''Error - not enough kernels for concatenation''))"
    using concatenation_create_selection [of arg_c ip_c rank_c a gdp_c opt_c cdt_c sel_c]
    by blast
next
  assume "\<not> is_parameterized arg_a
        \<or> (1 < length (input_layouts ip_a)
           \<and> cnaf_a arg_a (activations (gdp_a ip_a)) \<noteq> []
           \<and> \<not> cnt_a (input_layouts ip_a ! 1)
                 < req_a (output_layout ip_a) (cnaf_a arg_a (activations (gdp_a ip_a)) ! 0))"
  then show "\<exists>p. fst (activation_impl_create gdp_a opt_a cdt_a cnaf_a cnt_a req_a sel_a arg_a ip_a)
             = [(p, opt_a)]
       \<and> (sel_a p opt_a = [] \<longrightarrow>
            snd (activation_impl_create gdp_a opt_a cdt_a cnaf_a cnt_a req_a sel_a arg_a ip_a)
              = Inl (Cldnn_error (node_id arg_a) no_proper_kernel))
       \<and> (sel_a p opt_a \<noteq> [] \<longrightarrow>
            snd (activation_impl_create gdp_a opt_a cdt_a cnaf_a cnt_a req_a sel_a arg_a ip_a)
              = Inr \<lparr>impl_kernel_data = sel_a p opt_a ! 0,
                     impl_is_parameterized = is_parameterized arg_a\<rparr>)"
    by (rule activation_create_selection)
next
  show "\<exists>p. fst (extract_image_patches_impl_create gdp_e opt_e sel_e arg_e ip_e) = [(p, opt_e)]
       \<and> (sel_e p opt_e = [] \<longrightarrow>
            snd (extract_image_patches_impl_create gdp_e opt_e sel_e arg_e ip_e)
              = Inl (Cldnn_error (node_id arg_e) no_proper_kernel))
       \<and> (sel_e p opt_e \<noteq> [] \<longrightarrow>
            snd (extract_image_patches_impl_create gdp_e opt_e sel_e arg_e ip_e)
              = Inr \<lparr>impl_kernel_data = sel_e p opt_e ! 0\<rparr>)"
    by (rule extract_image_patches_create_selection)
next
  show "\<exists>p. fst (convert_color_impl_create gdp_v opt_v cdt_v sel_v arg_v ip_v) = [(p, opt_v)]
       \<and> (sel_v p opt_v = [] \<longrightarrow>
            snd (convert_color_impl_create gdp_v opt_v cdt_v sel_v arg_v ip_v)
              = Inl (Cldnn_error (node_id arg_v) no_proper_kernel))
       \<and> (sel_v p opt_v \<noteq> [] \<longrightarrow>
            snd (convert_color_impl_create gdp_v opt_v cdt_v sel_v arg_v ip_v)
              = Inr \<lparr>impl_kernel_data = sel_v p opt_v ! 0\<rparr>)"
    by (rule convert_color_create_selection)
next
  show "\<exists>p. fst (space_to_batch_impl_create gdp_s opt_s cdv_s sel_s arg_s ip_s) = [(p, opt_s)]
       \<and> (sel_s p opt_s = [] \<longrightarrow>
            snd (space_to_batch_impl_create gdp_s opt_s cdv_s sel_s arg_s ip_s)
              = Inl (Cldnn_error (node_id arg_s) no_proper_kernel))
       \<and> (sel_s p opt_s \<noteq> [] \<longrightarrow>
            snd (space_to_batch_impl_create gdp_s opt_s cdv_s sel_s arg_s ip_s)
              = Inr \<lparr>impl_kernel_data = sel_s p opt_s ! 0\<rparr>)"
    by (rule space_to_batch_create_selection)
next
  show "\<exists>p. fst (non_max_suppression_gpu_create gdp_n opt_n cdt_n sel_n arg_n) = [(p, opt_n)]
       \<and> (sel_n p opt_n = [] \<longrightarrow>
            snd (non_max_suppression_gpu_create gdp_n opt_n cdt_n sel_n arg_n)
              = Inl (Cldnn_error (node_id arg_n) no_proper_kernel))
       \<and> (sel_n p opt_n \<noteq> [] \<longrightarrow>
            snd (non_max_suppression_gpu_create gdp_n opt_n cdt_n sel_n arg_n)
              = Inr \<lparr>impl_kernel_data = sel_n p opt_n ! 0\<rparr>)"
    by (rule non_max_suppression_create_selection)
qed

theorem create_selects_first_candidate_witness:
  "inputs_count sample_quantize_node \<le> length (input_layouts sample_impl_param)
   \<and> \<not> can_be_optimized (sample_concatenation_node False 1) \<and> inputs_count
       (sample_concatenation_node False 1) \<le> length (input_layouts sample_impl_param) \<and>
       convert_axis (prim_axis (sample_concatenation_node False 1)) (4 :: 64 word) = Inr FEATURE
   \<and> 1 < length (input_layouts sample_impl_param) \<and> [] @ [0 :: nat] \<noteq> [] \<and>
       \<not> (16 :: 64 word) < 8
   \<and> snd (quantize_impl_create sample_quantize_defaults () (\<lambda>l. l) select_none
       sample_quantize_node sample_impl_param) = Inl (Cldnn_error ''quantize'' no_proper_kernel)
   \<and> snd (quantize_impl_create sample_quantize_defaults () (\<lambda>l. l) select_two
       sample_quantize_node sample_impl_param) = Inr \<lparr>impl_kernel_data = sample_kd1\<rparr>
   \<and> snd (concatenation_impl_create sample_concatenation_defaults \<lparr>kernelPerInput =
       False\<rparr> (\<lambda>l. l) (\<lambda>l. 4) select_none (sample_concatenation_node False
       1) sample_impl_param) = Inl (Cldnn_error ''concat'' no_proper_kernel)
   \<and> snd (concatenation_impl_create sample_concatenation_defaults \<lparr>kernelPerInput =
       False\<rparr> (\<lambda>l. l) (\<lambda>l. 4) select_two (sample_concatenation_node False 1)
       sample_impl_param) = Inr \<lparr>impl_kernel_data = sample_kd1, impl_can_be_optimized =
       False\<rparr>
   \<and> snd (concatenation_impl_create sample_concatenation_defaults \<lparr>kernelPerInput =
       False\<rparr> (\<lambda>l. l) (\<lambda>l. 4) select_short (sample_concatenation_node False
       1) sample_impl_param) = Inl (Cldnn_error ''concat'' ''Error - not enough kernels for concatenation'')
   \<and> snd (activation_impl_create sample_activation_defaults () (\<lambda>l. l) (\<lambda>n acts.
       acts @ [0]) (\<lambda>l. 16) (\<lambda>l a. 8) select_none (sample_activation_node True)
       sample_impl_param) = Inl (Cldnn_error ''activation'' no_proper_kernel)
   \<and> snd (activation_impl_create sample_activation_defaults () (\<lambda>l. l) (\<lambda>n acts.
       acts @ [0]) (\<lambda>l. 16) (\<lambda>l a. 8) select_two (sample_activation_node True)
       sample_impl_param) = Inr \<lparr>impl_kernel_data = sample_kd1, impl_is_parameterized =
       True\<rparr>
   \<and> snd (extract_image_patches_impl_create sample_extract_image_patches_defaults () select_none
       sample_extract_image_patches_node sample_impl_param) = Inl (Cldnn_error ''patches''
       no_proper_kernel)
   \<and> snd (extract_image_patches_impl_create sample_extract_image_patches_defaults () select_two
       sample_extract_image_patches_node sample_impl_param) = Inr \<lparr>impl_kernel_data =
       sample_kd1\<rparr>
   \<and> snd (convert_color_impl_create sample_convert_color_defaults () (\<lambda>l. l) select_none
       sample_convert_color_node sample_impl_param) = Inl (Cldnn_error ''color'' no_proper_kernel)
   \<and> snd (convert_color_impl_create sample_convert_color_defaults () (\<lambda>l. l) select_two
       sample_convert_color_node sample_impl_param) = Inr \<lparr>impl_kernel_data =
       sample_kd1\<rparr>
   \<and> snd (space_to_batch_impl_create sample_space_to_batch_defaults () sample_convert_dim_vector
       select_none sample_space_to_batch_node sample_impl_param) = Inl (Cldnn_error ''s2b''
       no_proper_kernel)
   \<and> snd (space_to_batch_impl_create sample_space_to_batch_defaults () sample_convert_dim_vector
       select_two sample_space_to_batch_node sample_impl_param) = Inr \<lparr>impl_kernel_data =
       sample_kd1\<rparr>
   \<and> snd (non_max_suppression_gpu_create sample_nms_defaults () (\<lambda>l. l) select_none
       (sample_nms_node False False)) = Inl (Cldnn_error ''nms'' no_proper_kernel)
   \<and> snd (non_max_suppression_gpu_create sample_nms_defaults () (\<lambda>l. l) select_two
       (sample_nms_node False False)) = Inr \<lparr>impl_kernel_data = sample_kd1\<rparr>"
proof -
  have ids: "node_id sample_quantize_node = ''quantize''"
    "node_id (sample_concatenation_node b a) = ''concat''"
    "node_id (sample_activation_node b) = ''activation''"
    "node_id sample_extract_image_patches_node = ''patches''"
    "node_id sample_convert_color_node = ''color''"
    "node_id sample_space_to_batch_node = ''s2b''"
    "node_id (sample_nms_node b c) = ''nms''"
    "inputs_count (sample_concatenation_node b a) = 2"
    "is_parameterized (sample_activation_node b) = b" for a b c
    by (simp_all add: sample_quantize_node_def sample_concatenation_node_def
        sample_activation_node_def sample_extract_image_patches_node_def
        sample_convert_color_node_def sample_space_to_batch_node_def sample_nms_node_def)
  have kd: "length (kernels sample_kd1) = 2" "length (kernels sample_kd2) = 1"
    by (simp_all add: sample_kd1_def sample_kd2_def)
  have hq: "inputs_count sample_quantize_node \<le> length (input_layouts sample_impl_param)"
    by (simp add: sample_quantize_node_def sample_impl_param_def)
  have ax: "convert_axis 1 4 = Inr FEATURE"
    by code_simp
  have hc: "\<not> can_be_optimized (sample_concatenation_node False 1)
      \<and> inputs_count (sample_concatenation_node False 1) \<le> length (input_layouts sample_impl_param)
      \<and> convert_axis (prim_axis (sample_concatenation_node False 1)) (4 :: 64 word) = Inr FEATURE"
    by (simp add: sample_concatenation_node_def sample_impl_param_def ax)
  have ha: "1 < length (input_layouts sample_impl_param) \<and> [] @ [0 :: nat] \<noteq> []
      \<and> \<not> (16 :: 64 word) < 8"
    by (simp add: sample_impl_param_def)
  have ha': "activations (sample_activation_defaults ip) = []" for ip
    by (simp add: sample_activation_defaults_def)
  have rq0: "snd (quantize_impl_create sample_quantize_defaults () (\<lambda>l. l)
        select_none sample_quantize_node sample_impl_param) = Inl (Cldnn_error ''quantize''
        no_proper_kernel)"
    using create_selects_first_candidate [where gdp_q = sample_quantize_defaults and opt_q =
        "()" and cdt_q = "\<lambda>l. l" and sel_q = select_none and arg_q = sample_quantize_node
        and ip_q = sample_impl_param, THEN conjunct1] hq
    by (auto simp: select_none_def select_two_def select_short_def ids kd ha')
  have rq2: "snd (quantize_impl_create sample_quantize_defaults () (\<lambda>l. l)
        select_two sample_quantize_node sample_impl_param) = Inr \<lparr>impl_kernel_data =
        sample_kd1\<rparr>"
    using create_selects_first_candidate [where gdp_q = sample_quantize_defaults and opt_q =
        "()" and cdt_q = "\<lambda>l. l" and sel_q = select_two and arg_q = sample_quantize_node and
        ip_q = sample_impl_param, THEN conjunct1] hq
    by (auto simp: select_none_def select_two_def select_short_def ids kd ha')
  have rc0: "snd (concatenation_impl_create sample_concatenation_defaults
        \<lparr>kernelPerInput = False\<rparr> (\<lambda>l. l) (\<lambda>l. 4) select_none
        (sample_concatenation_node False 1) sample_impl_param) = Inl (Cldnn_error ''concat''
        no_proper_kernel)"
    using create_selects_first_candidate [where gdp_c = sample_concatenation_defaults and
        opt_c = "\<lparr>kernelPerInput = False\<rparr>" and cdt_c = "\<lambda>l. l" and rank_c =
        "\<lambda>l. 4" and sel_c = select_none and arg_c = "sample_concatenation_node False 1" and
        ip_c = sample_impl_param and a = FEATURE, THEN conjunct2, THEN conjunct1] hc
    by (auto simp: select_none_def select_two_def select_short_def ids kd ha')
  have rc2: "snd (concatenation_impl_create sample_concatenation_defaults
        \<lparr>kernelPerInput = False\<rparr> (\<lambda>l. l) (\<lambda>l. 4) select_two
        (sample_concatenation_node False 1) sample_impl_param) = Inr \<lparr>impl_kernel_data =
        sample_kd1, impl_can_be_optimized = False\<rparr>"
    using create_selects_first_candidate [where gdp_c = sample_concatenation_defaults and
        opt_c = "\<lparr>kernelPerInput = False\<rparr>" and cdt_c = "\<lambda>l. l" and rank_c =
        "\<lambda>l. 4" and sel_c = select_two and arg_c = "sample_concatenation_node False 1" and
        ip_c = sample_impl_param and a = FEATURE, THEN conjunct2, THEN conjunct1] hc
    by (auto simp: select_none_def select_two_def select_short_def ids kd ha')
  have rc1: "snd (concatenation_impl_create sample_concatenation_defaults
        \<lparr>kernelPerInput = False\<rparr> (\<lambda>l. l) (\<lambda>l. 4) select_short
        (sample_concatenation_node False 1) sample_impl_param) = Inl (Cldnn_error ''concat'' ''Error - not enough kernels for concatenation'')"
    using create_selects_first_candidate [where gdp_c = sample_concatenation_defaults and
        opt_c = "\<lparr>kernelPerInput = False\<rparr>" and cdt_c = "\<lambda>l. l" and rank_c =
        "\<lambda>l. 4" and sel_c = select_short and arg_c = "sample_concatenation_node False 1" and
        ip_c = sample_impl_param and a = FEATURE, THEN conjunct2, THEN conjunct1] hc
    by (auto simp: select_none_def select_two_def select_short_def ids kd ha')
  have ra0: "snd (activation_impl_create sample_activation_defaults () (\<lambda>l. l)
        (\<lambda>n acts. acts @ [0]) (\<lambda>l. 16) (\<lambda>l a. 8) select_none
        (sample_activation_node True) sample_impl_param) = Inl (Cldnn_error ''activation''
        no_proper_kernel)"
    using create_selects_first_candidate [where gdp_a = sample_activation_defaults and opt_a
        = "()" and cdt_a = "\<lambda>l. l" and cnaf_a = "\<lambda>n acts. acts @ [0]" and cnt_a =
        "\<lambda>l. 16" and req_a = "\<lambda>l a. 8" and sel_a = select_none and arg_a =
        "sample_activation_node True" and ip_a = sample_impl_param, THEN conjunct2, THEN conjunct2,
        THEN conjunct1] ha ha'
    by (auto simp: select_none_def select_two_def select_short_def ids kd ha')
  have ra2: "snd (activation_impl_create sample_activation_defaults () (\<lambda>l. l)
        (\<lambda>n acts. acts @ [0]) (\<lambda>l. 16) (\<lambda>l a. 8) select_two
        (sample_activation_node True) sample_impl_param) = Inr \<lparr>impl_kernel_data =
        sample_kd1, impl_is_parameterized = True\<rparr>"
    using create_selects_first_candidate [where gdp_a = sample_activation_defaults and opt_a
        = "()" and cdt_a = "\<lambda>l. l" and cnaf_a = "\<lambda>n acts. acts @ [0]" and cnt_a =
        "\<lambda>l. 16" and req_a = "\<lambda>l a. 8" and sel_a = select_two and arg_a =
        "sample_activation_node True" and ip_a = sample_impl_param, THEN conjunct2, THEN conjunct2,
        THEN conjunct1] ha ha'
    by (auto simp: select_none_def select_two_def select_short_def ids kd ha')
  have re0: "snd (extract_image_patches_impl_create sample_extract_image_patches_defaults ()
        select_none sample_extract_image_patches_node sample_impl_param) = Inl (Cldnn_error
        ''patches'' no_proper_kernel)"
    using create_selects_first_candidate [where gdp_e =
        sample_extract_image_patches_defaults and opt_e = "()" and sel_e = select_none and arg_e =
        sample_extract_image_patches_node and ip_e = sample_impl_param, THEN conjunct2, THEN
        conjunct2, THEN conjunct2, THEN conjunct1]
    by (auto simp: select_none_def select_two_def select_short_def ids kd ha')
  have re2: "snd (extract_image_patches_impl_create sample_extract_image_patches_defaults ()
        select_two sample_extract_image_patches_node sample_impl_param) = Inr
        \<lparr>impl_kernel_data = sample_kd1\<rparr>"
    using create_selects_first_candidate [where gdp_e =
        sample_extract_image_patches_defaults and opt_e = "()" and sel_e = select_two and arg_e =
        sample_extract_image_patches_node and ip_e = sample_impl_param, THEN conjunct2, THEN
        conjunct2, THEN conjunct2, THEN conjunct1]
    by (auto simp: select_none_def select_two_def select_short_def ids kd ha')
  have rv0: "snd (convert_color_impl_create sample_convert_color_defaults () (\<lambda>l. l)
        select_none sample_convert_color_node sample_impl_param) = Inl (Cldnn_error ''color''
        no_proper_kernel)"
    using create_selects_first_candidate [where gdp_v = sample_convert_color_defaults and
        opt_v = "()" and cdt_v = "\<lambda>l. l" and sel_v = select_none and arg_v =
        sample_convert_color_node and ip_v = sample_impl_param, THEN conjunct2, THEN conjunct2, THEN
        conjunct2, THEN conjunct2, THEN conjunct1]
    by (auto simp: select_none_def select_two_def select_short_def ids kd ha')
  have rv2: "snd (convert_color_impl_create sample_convert_color_defaults () (\<lambda>l. l)
        select_two sample_convert_color_node sample_impl_param) = Inr \<lparr>impl_kernel_data =
        sample_kd1\<rparr>"
    using create_selects_first_candidate [where gdp_v = sample_convert_color_defaults and
        opt_v = "()" and cdt_v = "\<lambda>l. l" and sel_v = select_two and arg_v =
        sample_convert_color_node and ip_v = sample_impl_param, THEN conjunct2, THEN conjunct2, THEN
        conjunct2, THEN conjunct2, THEN conjunct1]
    by (auto simp: select_none_def select_two_def select_short_def ids kd ha')
  have rs0: "snd (space_to_batch_impl_create sample_space_to_batch_defaults ()
        sample_convert_dim_vector select_none sample_space_to_batch_node sample_impl_param) = Inl
        (Cldnn_error ''s2b'' no_proper_kernel)"
    using create_selects_first_candidate [where gdp_s = sample_space_to_batch_defaults and
        opt_s = "()" and cdv_s = sample_convert_dim_vector and sel_s = select_none and arg_s =
        sample_space_to_batch_node and ip_s = sample_impl_param, THEN conjunct2, THEN conjunct2,
        THEN conjunct2, THEN conjunct2, THEN conjunct2, THEN conjunct1]
    by (auto simp: select_none_def select_two_def select_short_def ids kd ha')
  have rs2: "snd (space_to_batch_impl_create sample_space_to_batch_defaults ()
        sample_convert_dim_vector select_two sample_space_to_batch_node sample_impl_param) = Inr
        \<lparr>impl_kernel_data = sample_kd1\<rparr>"
    using create_selects_first_candidate [where gdp_s = sample_space_to_batch_defaults and
        opt_s = "()" and cdv_s = sample_convert_dim_vector and sel_s = select_two and arg_s =
        sample_space_to_batch_node and ip_s = sample_impl_param, THEN conjunct2, THEN conjunct2,
        THEN conjunct2, THEN conjunct2, THEN conjunct2, THEN conjunct1]
    by (auto simp: select_none_def select_two_def select_short_def ids kd ha')
  have rn0: "snd (non_max_suppression_gpu_create sample_nms_defaults () (\<lambda>l. l)
        select_none (sample_nms_node False False)) = Inl (Cldnn_error ''nms'' no_proper_kernel)"
    using create_selects_first_candidate [where gdp_n = sample_nms_defaults and opt_n = "()"
        and cdt_n = "\<lambda>l. l" and sel_n = select_none and arg_n = "sample_nms_node False
        False", THEN conjunct2, THEN conjunct2, THEN conjunct2, THEN conjunct2, THEN conjunct2, THEN
        conjunct2]
    by (auto simp: select_none_def select_two_def select_short_def ids kd ha')
  have rn2: "snd (non_max_suppression_gpu_create sample_nms_defaults () (\<lambda>l. l)
        select_two (sample_nms_node False False)) = Inr \<lparr>impl_kernel_data =
        sample_kd1\<rparr>"
    using create_selects_first_candidate [where gdp_n = sample_nms_defaults and opt_n = "()"
        and cdt_n = "\<lambda>l. l" and sel_n = select_two and arg_n = "sample_nms_node False
        False", THEN conjunct2, THEN conjunct2, THEN conjunct2, THEN conjunct2, THEN conjunct2, THEN
        conjunct2]
    by (auto simp: select_none_def select_two_def select_short_def ids kd ha')
  note hs = hc [THEN conjunct1] hc [THEN conjunct2, THEN conjunct1]
    hc [THEN conjunct2, THEN conjunct2] ha [THEN conjunct1]
    ha [THEN conjunct2, THEN conjunct1] ha [THEN conjunct2, THEN conjunct2]
  show ?thesis
    by (intro conjI) (fact hq hs rq0 rq2 rc0 rc2 rc1 ra0 ra2 re0 re2 rv0 rv2 rs0 rs2 rn0 rn2)+
qed

text \<open>
  Claim C9. For a concatenation node on which \<open>can_be_optimized\<close> holds, \<^verbatim>\<open>create\<close>
  returns at once an implementation whose kernel data is empty and whose cached flag is
  set: it makes no selector invocation, the outcome does not depend on the input count
  (which is not compared with the number of kernels), on the axis or on the selector,
  and it is never a failure, in particular never the no-proper-kernel failure.
\<close>

theorem concatenation_create_optimized:
  assumes "can_be_optimized arg"
  shows "concatenation_impl_create gdp opt cdt get_rank sel arg ip
           = ([], Inr \<lparr>impl_kernel_data = empty_kernel_data, impl_can_be_optimized = True\<rparr>)
    \<and> kernels empty_kernel_data = []
    \<and> fst (concatenation_impl_create gdp opt cdt get_rank sel arg ip) = []
    \<and> (\<forall>e. snd (concatenation_impl_create gdp opt cdt get_rank sel arg ip) \<noteq> Inl e)"
  using assms
  by (simp add: concatenation_impl_create_def concatenation_impl_ctor_def
      concatenation_impl_set_node_params_def typed_primitive_impl_ocl_ctor_def
      typed_primitive_impl_ocl.extend_def concatenation_impl.fields_def
      empty_kernel_data_def)

theorem concatenation_create_optimized_witness:
  "can_be_optimized (sample_concatenation_node True 9)
   \<and> inputs_count (sample_concatenation_node True 9) = 2
   \<and> concatenation_impl_create sample_concatenation_defaults \<lparr>kernelPerInput = False\<rparr>
        (\<lambda>l. l) (\<lambda>l. 4) select_none (sample_concatenation_node True 9) sample_impl_param
      = ([], Inr \<lparr>impl_kernel_data = empty_kernel_data, impl_can_be_optimized = True\<rparr>)
   \<and> convert_axis 9 4 = Inl Axis_exceeds_dimensions
   \<and> select_none (sample_concatenation_defaults sample_impl_param) \<lparr>kernelPerInput = True\<rparr> = []"
proof -
  have h: "can_be_optimized (sample_concatenation_node True 9)"
    by (simp add: sample_concatenation_node_def)
  have a: "convert_axis 9 4 = Inl Axis_exceeds_dimensions"
    by code_simp
  from concatenation_create_optimized [OF h, of sample_concatenation_defaults
      "\<lparr>kernelPerInput = False\<rparr>" "\<lambda>l. l" "\<lambda>l. 4" select_none sample_impl_param] h a
  show ?thesis
    by (simp add: select_none_def sample_concatenation_node_def)
qed

section \<open>Properties of cloning\<close>

lemma concatenation_clone_frame:
  assumes "this < length store" and "concatenation_impl_clone store this = (copy, store')"
  shows "copy \<noteq> this \<and> copy < length store' \<and> this < length store'
    \<and> (\<forall>a < length store. store' ! a = store ! a)
    \<and> impl_can_be_optimized (store' ! copy) = impl_can_be_optimized (store ! this)
    \<and> (\<forall>node store''.
          concatenation_set_node_params_at store' copy (Concatenation_node node) = Inr store'' \<longrightarrow>
            impl_can_be_optimized (store'' ! copy) = can_be_optimized node
          \<and> impl_can_be_optimized (store'' ! this) = impl_can_be_optimized (store ! this))
    \<and> (\<forall>node store''.
          concatenation_set_node_params_at store' this (Concatenation_node node) = Inr store'' \<longrightarrow>
            impl_can_be_optimized (store'' ! this) = can_be_optimized node
          \<and> impl_can_be_optimized (store'' ! copy) = impl_can_be_optimized (store ! this))"
  using assms
  by (auto simp: concatenation_impl_clone_def make_unique_def concatenation_set_node_params_at_def
      concatenation_impl_set_node_params_def concatenation_impl_copy_def nth_append
      typed_primitive_impl_ocl.extend_def concatenation_impl.fields_def
      typed_primitive_impl_ocl.truncate_def)

lemma activation_clone_frame:
  assumes "this < length store" and "activation_impl_clone store this = (copy, store')"
  shows "copy \<noteq> this \<and> copy < length store' \<and> this < length store'
    \<and> (\<forall>a < length store. store' ! a = store ! a)
    \<and> impl_is_parameterized (store' ! copy) = impl_is_parameterized (store ! this)
    \<and> (\<forall>node store''.
          activation_set_node_params_at store' copy (Activation_node node) = Inr store'' \<longrightarrow>
            impl_is_parameterized (store'' ! copy) = is_parameterized node
          \<and> impl_is_parameterized (store'' ! this) = impl_is_parameterized (store ! this))
    \<and> (\<forall>node store''.
          activation_set_node_params_at store' this (Activation_node node) = Inr store'' \<longrightarrow>
            impl_is_parameterized (store'' ! this) = is_parameterized node
          \<and> impl_is_parameterized (store'' ! copy) = impl_is_parameterized (store ! this))"
  using assms
  by (auto simp: activation_impl_clone_def make_unique_def activation_set_node_params_at_def
      activation_impl_set_node_params_def activation_impl_copy_def nth_append
      typed_primitive_impl_ocl.extend_def activation_impl.fields_def
      typed_primitive_impl_ocl.truncate_def)

text \<open>
  Claim C8. Let \<open>this\<close> be the address of a concatenation (respectively activation)
  implementation in the store and let \<^verbatim>\<open>clone()\<close> return the address \<open>copy\<close>. Then
  \<open>copy\<close> is a new address, every object that was in the store is unchanged, and the flag
  \<^verbatim>\<open>_can_be_optimized\<close> (respectively \<^verbatim>\<open>_is_parameterized\<close>) of the copy equals the
  original's. The flag is held in each object: when \<^verbatim>\<open>set_node_params\<close> afterwards stores
  a new flag in the copy, the original still has the flag it had when copied, and when it
  stores a new flag in the original, the copy still has that flag.
\<close>

theorem clone_copies_flag_by_value:
  "(this < length store \<and> concatenation_impl_clone store this = (copy, store') \<longrightarrow>
      copy \<noteq> this \<and> copy < length store' \<and> this < length store'
    \<and> (\<forall>a < length store. store' ! a = store ! a)
    \<and> impl_can_be_optimized (store' ! copy) = impl_can_be_optimized (store ! this)
    \<and> (\<forall>node store''.
          concatenation_set_node_params_at store' copy (Concatenation_node node) = Inr store'' \<longrightarrow>
            impl_can_be_optimized (store'' ! copy) = can_be_optimized node
          \<and> impl_can_be_optimized (store'' ! this) = impl_can_be_optimized (store ! this))
    \<and> (\<forall>node store''.
          concatenation_set_node_params_at store' this (Concatenation_node node) = Inr store'' \<longrightarrow>
            impl_can_be_optimized (store'' ! this) = can_be_optimized node
          \<and> impl_can_be_optimized (store'' ! copy) = impl_can_be_optimized (store ! this)))
   \<and> (this_a < length store_a \<and> activation_impl_clone store_a this_a = (copy_a, store_a') \<longrightarrow>
      copy_a \<noteq> this_a \<and> copy_a < length store_a' \<and> this_a < length store_a'
    \<and> (\<forall>a < length store_a. store_a' ! a = store_a ! a)
    \<and> impl_is_parameterized (store_a' ! copy_a) = impl_is_parameterized (store_a ! this_a)
    \<and> (\<forall>node store''.
          activation_set_node_params_at store_a' copy_a (Activation_node node) = Inr store'' \<longrightarrow>
            impl_is_parameterized (store'' ! copy_a) = is_parameterized node
          \<and> impl_is_parameterized (store'' ! this_a) = impl_is_parameterized (store_a ! this_a))
    \<and> (\<forall>node store''.
          activation_set_node_params_at store_a' this_a (Activation_node node) = Inr store'' \<longrightarrow>
            impl_is_parameterized (store'' ! this_a) = is_parameterized node
          \<and> impl_is_parameterized (store'' ! copy_a) = impl_is_parameterized (store_a ! this_a)))"
proof (rule conjI; rule impI)
  assume "this < length store \<and> concatenation_impl_clone store this = (copy, store')"
  then show "copy \<noteq> this \<and> copy < length store' \<and> this < length store'
    \<and> (\<forall>a < length store. store' ! a = store ! a)
    \<and> impl_can_be_optimized (store' ! copy) = impl_can_be_optimized (store ! this)
    \<and> (\<forall>node store''.
          concatenation_set_node_params_at store' copy (Concatenation_node node) = Inr store'' \<longrightarrow>
            impl_can_be_optimized (store'' ! copy) = can_be_optimized node
          \<and> impl_can_be_optimized (store'' ! this) = impl_can_be_optimized (store ! this))
    \<and> (\<forall>node store''.
          concatenation_set_node_params_at store' this (Concatenation_node node) = Inr store'' \<longrightarrow>
            impl_can_be_optimized (store'' ! this) = can_be_optimized node
          \<and> impl_can_be_optimized (store'' ! copy) = impl_can_be_optimized (store ! this))"
    using concatenation_clone_frame [of this store copy store'] by blast
next
  assume "this_a < length store_a \<and> activation_impl_clone store_a this_a = (copy_a, store_a')"
  then show "copy_a \<noteq> this_a \<and> copy_a < length store_a' \<and> this_a < length store_a'
    \<and> (\<forall>a < length store_a. store_a' ! a = store_a ! a)
    \<and> impl_is_parameterized (store_a' ! copy_a) = impl_is_parameterized (store_a ! this_a)
    \<and> (\<forall>node store''.
          activation_set_node_params_at store_a' copy_a (Activation_node node) = Inr store'' \<longrightarrow>
            impl_is_parameterized (store'' ! copy_a) = is_parameterized node
          \<and> impl_is_parameterized (store'' ! this_a) = impl_is_parameterized (store_a ! this_a))
    \<and> (\<forall>node store''.
          activation_set_node_params_at store_a' this_a (Activation_node node) = Inr store'' \<longrightarrow>
            impl_is_parameterized (store'' ! this_a) = is_parameterized node
          \<and> impl_is_parameterized (store'' ! copy_a) = impl_is_parameterized (store_a ! this_a))"
    using activation_clone_frame [of this_a store_a copy_a store_a'] by blast
qed

theorem clone_copies_flag_by_value_witness:
  "(1 :: nat) < length sample_store
   \<and> concatenation_impl_clone sample_store 1
       = (2, sample_store @ [\<lparr>impl_kernel_data = sample_kd2, impl_can_be_optimized = True\<rparr>])
   \<and> concatenation_set_node_params_at (snd (concatenation_impl_clone sample_store 1)) 2
         (Concatenation_node (sample_concatenation_node False 1))
       = Inr (sample_store @ [\<lparr>impl_kernel_data = sample_kd2, impl_can_be_optimized = False\<rparr>])
   \<and> impl_can_be_optimized
        ((sample_store @ [\<lparr>impl_kernel_data = sample_kd2, impl_can_be_optimized = False\<rparr>]) ! 1)
   \<and> \<not> impl_can_be_optimized
        ((sample_store @ [\<lparr>impl_kernel_data = sample_kd2, impl_can_be_optimized = False\<rparr>]) ! 2)
   \<and> (0 :: nat) < length sample_activation_store
   \<and> activation_impl_clone sample_activation_store 0
       = (1, sample_activation_store @ [\<lparr>impl_kernel_data = sample_kd1, impl_is_parameterized = True\<rparr>])
   \<and> activation_set_node_params_at (snd (activation_impl_clone sample_activation_store 0)) 0
         (Activation_node (sample_activation_node False))
       = Inr [\<lparr>impl_kernel_data = sample_kd1, impl_is_parameterized = False\<rparr>,
              \<lparr>impl_kernel_data = sample_kd1, impl_is_parameterized = True\<rparr>]
   \<and> impl_is_parameterized
        ([\<lparr>impl_kernel_data = sample_kd1, impl_is_parameterized = False\<rparr>,
          \<lparr>impl_kernel_data = sample_kd1, impl_is_parameterized = True\<rparr>] ! 1)"
proof -
  let ?c = "\<lparr>impl_kernel_data = sample_kd2, impl_can_be_optimized = True\<rparr>"
  let ?c' = "\<lparr>impl_kernel_data = sample_kd2, impl_can_be_optimized = False\<rparr>"
  let ?a = "\<lparr>impl_kernel_data = sample_kd1, impl_is_parameterized = True\<rparr>"
  let ?a' = "\<lparr>impl_kernel_data = sample_kd1, impl_is_parameterized = False\<rparr>"
  have l: "(1 :: nat) < length sample_store" "(0 :: nat) < length sample_activation_store"
    by (simp_all add: sample_store_def sample_activation_store_def)
  have k: "concatenation_impl_clone sample_store 1 = (2, sample_store @ [?c])"
    by (simp add: concatenation_impl_clone_def make_unique_def sample_store_def
        concatenation_impl_copy_def typed_primitive_impl_ocl.extend_def
        concatenation_impl.fields_def typed_primitive_impl_ocl.truncate_def)
  have s: "concatenation_set_node_params_at (sample_store @ [?c]) 2
             (Concatenation_node (sample_concatenation_node False 1))
           = Inr (sample_store @ [?c'])"
    by (simp add: concatenation_set_node_params_at_def concatenation_impl_set_node_params_def
        sample_store_def sample_concatenation_node_def)
  have ka: "activation_impl_clone sample_activation_store 0 = (1, sample_activation_store @ [?a])"
    by (simp add: activation_impl_clone_def make_unique_def sample_activation_store_def
        activation_impl_copy_def typed_primitive_impl_ocl.extend_def
        activation_impl.fields_def typed_primitive_impl_ocl.truncate_def)
  have sa: "activation_set_node_params_at (sample_activation_store @ [?a]) 0
             (Activation_node (sample_activation_node False))
           = Inr [?a', ?a]"
    by (simp add: activation_set_node_params_at_def activation_impl_set_node_params_def
        sample_activation_store_def sample_activation_node_def)
  have o: "impl_can_be_optimized (sample_store ! 1)"
      "impl_is_parameterized (sample_activation_store ! 0)"
      "\<not> can_be_optimized (sample_concatenation_node False 1)"
    by (simp_all add: sample_store_def sample_activation_store_def sample_concatenation_node_def)
  from clone_copies_flag_by_value [THEN conjunct1, of 1 sample_store 2 "sample_store @ [?c]"] l k
  have "\<forall>node store''.
          concatenation_set_node_params_at (sample_store @ [?c]) 2 (Concatenation_node node)
            = Inr store'' \<longrightarrow>
            impl_can_be_optimized (store'' ! 2) = can_be_optimized node
          \<and> impl_can_be_optimized (store'' ! 1) = impl_can_be_optimized (sample_store ! 1)"
    by blast
  with s o have c: "impl_can_be_optimized ((sample_store @ [?c']) ! 1)"
      "\<not> impl_can_be_optimized ((sample_store @ [?c']) ! 2)"
    by blast+
  from clone_copies_flag_by_value [THEN conjunct2, of 0 sample_activation_store 1
      "sample_activation_store @ [?a]"] l ka
  have "\<forall>node store''.
          activation_set_node_params_at (sample_activation_store @ [?a]) 0 (Activation_node node)
            = Inr store'' \<longrightarrow>
            impl_is_parameterized (store'' ! 0) = is_parameterized node
          \<and> impl_is_parameterized (store'' ! 1) = impl_is_parameterized (sample_activation_store ! 0)"
    by blast
  with sa o have a: "impl_is_parameterized ([?a', ?a] ! 1)"
    by blast
  from l k s ka sa c a show ?thesis
    by simp
qed

section \<open>Non-max suppression parameter building\<close>

lemma non_max_suppression_build_params_inputs:
  "inputs (non_max_suppression_build_params cdt params arg)
     = inputs params @ [cdt (input_scores_layout arg)]
       @ (if node_has_num_select_per_class arg then [cdt (num_select_per_class_layout arg)] else [])
       @ (if node_has_iou_threshold arg then [cdt (iou_threshold_layout arg)] else [])
       @ (if node_has_score_threshold arg then [cdt (score_threshold_layout arg)] else [])
       @ (if node_has_soft_nms_sigma arg then [cdt (soft_nms_sigma_layout arg)] else [])
       @ (if node_has_second_output arg
          then [cdt (second_output_layout arg), cdt (third_output_layout arg)] else [])"
  by (simp add: non_max_suppression_build_params_def Let_def)

lemma non_max_suppression_build_params_flags:
  "has_num_select_per_class (non_max_suppression_build_params cdt params arg)
     = (node_has_num_select_per_class arg \<or> has_num_select_per_class params)"
  "has_iou_threshold (non_max_suppression_build_params cdt params arg)
     = (node_has_iou_threshold arg \<or> has_iou_threshold params)"
  "has_score_threshold (non_max_suppression_build_params cdt params arg)
     = (node_has_score_threshold arg \<or> has_score_threshold params)"
  "has_soft_nms_sigma (non_max_suppression_build_params cdt params arg)
     = (node_has_soft_nms_sigma arg \<or> has_soft_nms_sigma params)"
  "has_second_output (non_max_suppression_build_params cdt params arg)
     = (node_has_second_output arg \<or> has_second_output params)"
  "has_third_output (non_max_suppression_build_params cdt params arg)
     = (node_has_second_output arg \<or> has_third_output params)"
  by (simp_all add: non_max_suppression_build_params_def Let_def)

text \<open>
  Claim C2. Each of the six optional inputs should be appended, and its flag set, exactly
  when the node reports the capability. The code tests \<^verbatim>\<open>has_second_output()\<close> where it
  handles the third output. On a node that reports a third output and no second output,
  the third output's tensor is not appended (the input list holds the scores tensor
  alone) and the flag \<open>has_third_output\<close> stays unset; on a node that reports a second
  output and no third output, the third output's tensor is appended and the flag is set.
\<close>

theorem non_max_suppression_third_output_follows_second:
  "node_has_third_output (sample_nms_node False True)
   \<and> \<not> node_has_second_output (sample_nms_node False True)
   \<and> inputs (non_max_suppression_build_params (\<lambda>l. l)
               (sample_nms_defaults (sample_nms_node False True)) (sample_nms_node False True))
       = [input_scores_layout (sample_nms_node False True)]
   \<and> \<not> has_third_output (non_max_suppression_build_params (\<lambda>l. l)
               (sample_nms_defaults (sample_nms_node False True)) (sample_nms_node False True))
   \<and> \<not> node_has_third_output (sample_nms_node True False)
   \<and> inputs (non_max_suppression_build_params (\<lambda>l. l)
               (sample_nms_defaults (sample_nms_node True False)) (sample_nms_node True False))
       = [input_scores_layout (sample_nms_node True False),
          second_output_layout (sample_nms_node True False),
          third_output_layout (sample_nms_node True False)]
   \<and> has_third_output (non_max_suppression_build_params (\<lambda>l. l)
               (sample_nms_defaults (sample_nms_node True False)) (sample_nms_node True False))"
  by (simp add: non_max_suppression_build_params_inputs non_max_suppression_build_params_flags
      sample_nms_node_def sample_nms_defaults_def)

end
